theory Spec2Isabelle
  imports Complex_Main "HOL-Library.Word"
begin

unbundle bit_operations_syntax

section \<open>Plan management of the CUDPP library (cudpp\_plan.cpp)\<close>

subsection \<open>Data model\<close>

text \<open>
  \<open>size_t\<close> is taken at 64 bits and \<open>unsigned int\<close> at 32 bits (an LP64 build).
\<close>

type_synonym size_t = "64 word"
type_synonym uint = "32 word"

datatype CUDPPResult =
    CUDPP_SUCCESS
  | CUDPP_ERROR_INVALID_HANDLE
  | CUDPP_ERROR_ILLEGAL_CONFIGURATION
  | CUDPP_ERROR_UNKNOWN

text \<open>
  Modelled from the spec: the enumerations of cudpp.h are not part of the sources at hand.
  The algorithm tags are the seven of the closed set; \<open>CUDPP_ALGORITHM_INVALID\<close> stands
  for any tag outside it.
\<close>

datatype CUDPPAlgorithm =
    CUDPP_SCAN
  | CUDPP_SEGMENTED_SCAN
  | CUDPP_COMPACT
  | CUDPP_REDUCE
  | CUDPP_SORT_RADIX
  | CUDPP_SPMVMULT
  | CUDPP_RAND_MD5
  | CUDPP_ALGORITHM_INVALID

datatype CUDPPOperator = CUDPP_ADD | CUDPP_MULTIPLY | CUDPP_MIN | CUDPP_MAX

datatype CUDPPDatatype = CUDPP_INT | CUDPP_UINT | CUDPP_FLOAT | CUDPP_DOUBLE

record CUDPPConfiguration =
  algorithm :: CUDPPAlgorithm
  op :: CUDPPOperator
  datatype_t :: CUDPPDatatype
  options :: uint

text \<open>
  Modelled from the spec: the option bits and the CTA sizes are macros and constants of
  headers that are not part of the sources at hand. They are a parameter of every function
  that reads one, so each result below holds for whatever values the headers give them.
\<close>

record cudpp_macros =
  CUDPP_OPTION_FORWARD :: uint
  CUDPP_OPTION_BACKWARD :: uint
  CUDPP_OPTION_EXCLUSIVE :: uint
  CUDPP_OPTION_INCLUSIVE :: uint
  CUDPP_OPTION_KEYS_ONLY :: uint
  SORT_CTA_SIZE :: size_t
  REDUCE_CTA_SIZE :: size_t

text \<open>
  Modelled from the spec: a handle is opaque; it is the invalid sentinel or it names one
  plan object. A plan's handle is the address of the object (\<open>getHandle\<close>).
\<close>

datatype CUDPPHandle = CUDPP_INVALID_HANDLE | Handle nat

text \<open>A pointer to a plan: \<open>None\<close> is the null pointer.\<close>

type_synonym plan_ptr = "nat option"

text \<open>
  The members each concrete plan class adds to the base class. The scratch descriptors
  that only the storage routines write (block sums, counters, device arrays) are left to
  those routines.
\<close>

datatype plan_class =
    CUDPPScanPlan
  | CUDPPSegmentedScanPlan
  | CUDPPCompactPlan (m_scanPlan: plan_ptr)
  | CUDPPReducePlan (m_threadsPerBlock: size_t) (m_maxBlocks: size_t)
  | CUDPPRadixSortPlan (m_scanPlan: plan_ptr) (m_bKeysOnly: bool)
  | CUDPPSparseMatrixVectorMultiplyPlan
      (m_segmentedScanPlan: plan_ptr) (m_rowFinalIndex: "uint list")
      (m_numRows': size_t) (m_numNonZeroElements: size_t)
  | CUDPPRandPlan (m_seed: uint)

record CUDPPPlan =
  m_config :: CUDPPConfiguration
  m_numElements :: size_t
  m_numRows :: size_t
  m_rowPitch :: size_t
  m_planManager :: CUDPPHandle
  derived :: plan_class

text \<open>
  What the code does to the world outside the plan objects, in order: objects and arrays
  obtained and given back, and the calls of the storage routines of the kernels.
\<close>

datatype event =
    New nat
  | Delete nat
  | NewArray nat
  | DeleteArray nat
  | AllocStorage CUDPPAlgorithm nat
  | FreeStorage CUDPPAlgorithm nat

record state =
  plans :: "nat \<rightharpoonup> CUDPPPlan"
  next_handle :: nat
  trace :: "event list"

datatype fault =
    NullDereference
  | DanglingPointer
  | BadCast
  | AssertionFailure
  | DivisionByZero
  | OutOfBounds
  | Diverges

definition init_state :: state where
  "init_state = \<lparr>plans = Map.empty, next_handle = 0, trace = []\<rparr>"

subsection \<open>Collaborators\<close>

text \<open>
  Modelled from the spec: handle assignment happens once per plan, at construction; it is
  monotonic and a handle is never reused. \<open>operator_new\<close> draws the address of a new
  object, \<open>operator_delete\<close> gives the object back, which ends the handle's registration.
\<close>

definition operator_new :: "state \<Rightarrow> nat \<times> state" where
  "operator_new s =
     (next_handle s,
      s\<lparr>next_handle := Suc (next_handle s), trace := trace s @ [New (next_handle s)]\<rparr>)"

definition operator_delete :: "nat \<Rightarrow> state \<Rightarrow> state" where
  "operator_delete a s = s\<lparr>plans := (plans s)(a := None), trace := trace s @ [Delete a]\<rparr>"

definition construct :: "nat \<Rightarrow> CUDPPPlan \<Rightarrow> state \<Rightarrow> state" where
  "construct a obj s = s\<lparr>plans := (plans s)(a \<mapsto> obj)\<rparr>"

text \<open>
  Modelled from the spec: the storage routines of the kernels (\<open>allocScanStorage\<close>,
  \<open>freeScanStorage\<close> and their siblings) are external collaborators; a call is recorded
  with the algorithm it belongs to and the plan it is given.
\<close>

definition allocStorage :: "CUDPPAlgorithm \<Rightarrow> nat \<Rightarrow> state \<Rightarrow> state" where
  "allocStorage alg a s = s\<lparr>trace := trace s @ [AllocStorage alg a]\<rparr>"

definition freeStorage :: "CUDPPAlgorithm \<Rightarrow> nat \<Rightarrow> state \<Rightarrow> state" where
  "freeStorage alg a s = s\<lparr>trace := trace s @ [FreeStorage alg a]\<rparr>"

text \<open>
  Modelled from the spec: \<open>getManagerFromHandle\<close> resolves the instance; the manager is
  stored in the plan and never read in this file.
\<close>

definition getManagerFromHandle :: "CUDPPHandle \<Rightarrow> CUDPPHandle" where
  "getManagerFromHandle cudppHandle = cudppHandle"

text \<open>
  Modelled from the spec: \<open>getPlanPtrFromHandle\<close> resolves a handle to the plan it is
  registered for; the sentinel and a handle that is not registered resolve to no plan.
\<close>

definition getPlanPtrFromHandle :: "state \<Rightarrow> CUDPPHandle \<Rightarrow> plan_ptr" where
  "getPlanPtrFromHandle s h =
     (case h of
        CUDPP_INVALID_HANDLE \<Rightarrow> None
      | Handle a \<Rightarrow> (case plans s a of None \<Rightarrow> None | Some obj \<Rightarrow> Some a))"

definition getHandle :: "nat \<Rightarrow> CUDPPHandle" where
  "getHandle a = Handle a"

text \<open>Reading through a plan pointer.\<close>

definition deref :: "state \<Rightarrow> plan_ptr \<Rightarrow> fault + CUDPPPlan" where
  "deref s p =
     (case p of
        None \<Rightarrow> Inl NullDereference
      | Some a \<Rightarrow> (case plans s a of None \<Rightarrow> Inl DanglingPointer | Some obj \<Rightarrow> Inr obj))"

subsection \<open>validateOptions\<close>

definition validateOptions ::
  "cudpp_macros \<Rightarrow> CUDPPConfiguration \<Rightarrow> size_t \<Rightarrow> size_t \<Rightarrow> size_t \<Rightarrow> CUDPPResult" where
  "validateOptions M config numElements numRows rowPitch =
     (let ret = CUDPP_SUCCESS;
          ret = (if options config AND CUDPP_OPTION_BACKWARD M \<noteq> 0 \<and>
                    options config AND CUDPP_OPTION_FORWARD M \<noteq> 0
                 then CUDPP_ERROR_ILLEGAL_CONFIGURATION else ret);
          ret = (if options config AND CUDPP_OPTION_EXCLUSIVE M \<noteq> 0 \<and>
                    options config AND CUDPP_OPTION_INCLUSIVE M \<noteq> 0
                 then CUDPP_ERROR_ILLEGAL_CONFIGURATION else ret);
          ret = (if algorithm config = CUDPP_COMPACT \<and> 1 < numRows
                 then CUDPP_ERROR_ILLEGAL_CONFIGURATION else ret)
      in ret)"

subsection \<open>Constructors\<close>

definition CUDPPPlan_ctor ::
  "CUDPPHandle \<Rightarrow> CUDPPConfiguration \<Rightarrow> size_t \<Rightarrow> size_t \<Rightarrow> size_t \<Rightarrow> plan_class \<Rightarrow> CUDPPPlan" where
  "CUDPPPlan_ctor mgr config numElements numRows rowPitch d =
     \<lparr>m_config = config, m_numElements = numElements, m_numRows = numRows,
      m_rowPitch = rowPitch, m_planManager = mgr, derived = d\<rparr>"

definition new_CUDPPScanPlan ::
  "CUDPPHandle \<Rightarrow> CUDPPConfiguration \<Rightarrow> size_t \<Rightarrow> size_t \<Rightarrow> size_t \<Rightarrow> state \<Rightarrow> plan_ptr \<times> state" where
  "new_CUDPPScanPlan mgr config numElements numRows rowPitch s =
     (case operator_new s of (this, s1) \<Rightarrow>
        (Some this,
         allocStorage CUDPP_SCAN this
           (construct this
              (CUDPPPlan_ctor mgr config numElements numRows rowPitch CUDPPScanPlan) s1)))"

definition new_CUDPPSegmentedScanPlan ::
  "CUDPPHandle \<Rightarrow> CUDPPConfiguration \<Rightarrow> size_t \<Rightarrow> state \<Rightarrow> plan_ptr \<times> state" where
  "new_CUDPPSegmentedScanPlan mgr config numElements s =
     (case operator_new s of (this, s1) \<Rightarrow>
        (Some this,
         allocStorage CUDPP_SEGMENTED_SCAN this
           (construct this
              (CUDPPPlan_ctor mgr config numElements 1 0 CUDPPSegmentedScanPlan) s1)))"

text \<open>
  The compact constructor asserts \<open>numRows == 1\<close>, builds the scan plan it owns, and then
  has its own storage allocated.
\<close>

definition new_CUDPPCompactPlan ::
  "cudpp_macros \<Rightarrow> CUDPPHandle \<Rightarrow> CUDPPConfiguration \<Rightarrow> size_t \<Rightarrow> size_t \<Rightarrow> size_t \<Rightarrow> state
     \<Rightarrow> fault + plan_ptr \<times> state" where
  "new_CUDPPCompactPlan M mgr config numElements numRows rowPitch s =
     (case operator_new s of (this, s1) \<Rightarrow>
        if numRows \<noteq> 1 then Inl AssertionFailure
        else
          let scanConfig =
                \<lparr>algorithm = CUDPP_SCAN, op = CUDPP_ADD, datatype_t = CUDPP_UINT,
                 options =
                   (if options config AND CUDPP_OPTION_BACKWARD M \<noteq> 0
                    then CUDPP_OPTION_BACKWARD M OR CUDPP_OPTION_EXCLUSIVE M
                    else CUDPP_OPTION_FORWARD M OR CUDPP_OPTION_EXCLUSIVE M)\<rparr>
          in case new_CUDPPScanPlan mgr scanConfig numElements numRows rowPitch s1 of
               (scanPlan, s2) \<Rightarrow>
                 Inr (Some this,
                      allocStorage CUDPP_COMPACT this
                        (construct this
                           (CUDPPPlan_ctor mgr config numElements numRows rowPitch
                              (CUDPPCompactPlan scanPlan)) s2)))"

text \<open>
  The reduce constructor has a tuning argument that it only assigns to (its own copy), and
  \<open>cudppPlan\<close> calls the constructor without it, so the argument is not part of the model.
\<close>

definition new_CUDPPReducePlan ::
  "cudpp_macros \<Rightarrow> CUDPPHandle \<Rightarrow> CUDPPConfiguration \<Rightarrow> size_t \<Rightarrow> state \<Rightarrow> plan_ptr \<times> state" where
  "new_CUDPPReducePlan M mgr config numElements s =
     (case operator_new s of (this, s1) \<Rightarrow>
        (Some this,
         allocStorage CUDPP_REDUCE this
           (construct this
              (CUDPPPlan_ctor mgr config numElements 1 0
                 (CUDPPReducePlan (REDUCE_CTA_SIZE M) 64)) s1)))"

text \<open>The number of blocks of twice the CTA size that cover \<open>numElements\<close>.\<close>

definition numBlocks2 :: "cudpp_macros \<Rightarrow> size_t \<Rightarrow> size_t" where
  "numBlocks2 M numElements =
     (if numElements mod (SORT_CTA_SIZE M * 2) = 0
      then numElements div (SORT_CTA_SIZE M * 2)
      else numElements div (SORT_CTA_SIZE M * 2) + 1)"

definition new_CUDPPRadixSortPlan ::
  "cudpp_macros \<Rightarrow> CUDPPHandle \<Rightarrow> CUDPPConfiguration \<Rightarrow> size_t \<Rightarrow> state
     \<Rightarrow> fault + plan_ptr \<times> state" where
  "new_CUDPPRadixSortPlan M mgr config numElements s =
     (case operator_new s of (this, s1) \<Rightarrow>
        if SORT_CTA_SIZE M * 2 = 0 then Inl DivisionByZero
        else
          let scanConfig =
                \<lparr>algorithm = CUDPP_SCAN, op = CUDPP_ADD, datatype_t = CUDPP_UINT,
                 options = CUDPP_OPTION_FORWARD M OR CUDPP_OPTION_EXCLUSIVE M\<rparr>;
              bKeysOnly = (if options config = CUDPP_OPTION_KEYS_ONLY M then True else False)
          in case new_CUDPPScanPlan mgr scanConfig (numBlocks2 M numElements * 16) 1 0 s1 of
               (scanPlan, s2) \<Rightarrow>
                 Inr (Some this,
                      allocStorage CUDPP_SORT_RADIX this
                        (construct this
                           (CUDPPPlan_ctor mgr config numElements 1 0
                              (CUDPPRadixSortPlan scanPlan bKeysOnly)) s2)))"

definition new_CUDPPRandPlan ::
  "CUDPPHandle \<Rightarrow> CUDPPConfiguration \<Rightarrow> size_t \<Rightarrow> state \<Rightarrow> plan_ptr \<times> state" where
  "new_CUDPPRandPlan mgr config num_elements s =
     (case operator_new s of (this, s1) \<Rightarrow>
        (Some this,
         construct this (CUDPPPlan_ctor mgr config num_elements 1 0 (CUDPPRandPlan 0)) s1))"

text \<open>
  The loop of the sparse-matrix constructor that fills the table of final indices. The
  counter \<open>i\<close> is an \<open>unsigned int\<close> and is compared with a \<open>size_t\<close>; a read of
  \<open>rowIndex\<close> beyond its end is a fault. A run that does not return has the value \<open>None\<close>.
\<close>

partial_function (option) rowFinalIndex_loop ::
  "uint list \<Rightarrow> size_t \<Rightarrow> size_t \<Rightarrow> uint \<Rightarrow> uint list \<Rightarrow> (fault + uint list) option" where
  "rowFinalIndex_loop rowIndex numRows numNonZeroElements i tbl =
     (if ucast i < numRows then
        (if length tbl \<le> unat i then Some (Inl OutOfBounds)
         else if ucast i < numRows - 1 then
           (if length rowIndex \<le> unat (i + 1) then Some (Inl OutOfBounds)
            else rowFinalIndex_loop rowIndex numRows numNonZeroElements (i + 1)
                   (tbl[unat i := rowIndex ! unat (i + 1)]))
         else rowFinalIndex_loop rowIndex numRows numNonZeroElements (i + 1)
                (tbl[unat i := ucast numNonZeroElements]))
      else Some (Inr tbl))"

text \<open>
  The sparse-matrix constructor: the segmented-scan plan it owns, then the table (a new
  array of \<open>numRows\<close> entries, each written by the loop), then its own storage. The matrix
  data \<open>A\<close> and the column indices \<open>index\<close> only go to the storage routine.
\<close>

definition new_CUDPPSparseMatrixVectorMultiplyPlan ::
  "cudpp_macros \<Rightarrow> CUDPPHandle \<Rightarrow> CUDPPConfiguration \<Rightarrow> size_t \<Rightarrow> uint list \<Rightarrow> uint list
     \<Rightarrow> uint list \<Rightarrow> size_t \<Rightarrow> state \<Rightarrow> fault + plan_ptr \<times> state" where
  "new_CUDPPSparseMatrixVectorMultiplyPlan M mgr config numNonZeroElements A rowIndex index
       numRows s =
     (case operator_new s of (this, s1) \<Rightarrow>
        let segScanConfig =
              \<lparr>algorithm = CUDPP_SEGMENTED_SCAN, op = CUDPP_ADD, datatype_t = datatype_t config,
               options = CUDPP_OPTION_FORWARD M OR CUDPP_OPTION_INCLUSIVE M\<rparr>
        in case new_CUDPPSegmentedScanPlan mgr segScanConfig numNonZeroElements s1 of
             (segmentedScanPlan, s2) \<Rightarrow>
               let s3 = s2\<lparr>trace := trace s2 @ [NewArray this]\<rparr>
               in (case rowFinalIndex_loop rowIndex numRows numNonZeroElements 0
                          (replicate (unat numRows) 0) of
                     None \<Rightarrow> Inl Diverges
                   | Some (Inl f) \<Rightarrow> Inl f
                   | Some (Inr rowFinalIndex) \<Rightarrow>
                       Inr (Some this,
                            allocStorage CUDPP_SPMVMULT this
                              (construct this
                                 (CUDPPPlan_ctor mgr config numNonZeroElements 1 0
                                    (CUDPPSparseMatrixVectorMultiplyPlan segmentedScanPlan
                                       rowFinalIndex numRows numNonZeroElements)) s3))))"

subsection \<open>Destructors\<close>

text \<open>
  \<open>delete p\<close> for each plan class: nothing for the null pointer; otherwise the body of
  the destructor runs on the object and the object is given back. Deleting through a
  pointer to an object that is gone, or of another class, is a fault.
\<close>

definition delete_CUDPPScanPlan :: "plan_ptr \<Rightarrow> state \<Rightarrow> fault + state" where
  "delete_CUDPPScanPlan p s =
     (case p of
        None \<Rightarrow> Inr s
      | Some a \<Rightarrow>
          (case plans s a of
             None \<Rightarrow> Inl DanglingPointer
           | Some obj \<Rightarrow>
               (case derived obj of
                  CUDPPScanPlan \<Rightarrow> Inr (operator_delete a (freeStorage CUDPP_SCAN a s))
                | _ \<Rightarrow> Inl BadCast)))"

definition delete_CUDPPSegmentedScanPlan :: "plan_ptr \<Rightarrow> state \<Rightarrow> fault + state" where
  "delete_CUDPPSegmentedScanPlan p s =
     (case p of
        None \<Rightarrow> Inr s
      | Some a \<Rightarrow>
          (case plans s a of
             None \<Rightarrow> Inl DanglingPointer
           | Some obj \<Rightarrow>
               (case derived obj of
                  CUDPPSegmentedScanPlan \<Rightarrow>
                    Inr (operator_delete a (freeStorage CUDPP_SEGMENTED_SCAN a s))
                | _ \<Rightarrow> Inl BadCast)))"

definition delete_CUDPPCompactPlan :: "plan_ptr \<Rightarrow> state \<Rightarrow> fault + state" where
  "delete_CUDPPCompactPlan p s =
     (case p of
        None \<Rightarrow> Inr s
      | Some a \<Rightarrow>
          (case plans s a of
             None \<Rightarrow> Inl DanglingPointer
           | Some obj \<Rightarrow>
               (case derived obj of
                  CUDPPCompactPlan scanPlan \<Rightarrow>
                    (case delete_CUDPPScanPlan scanPlan s of
                       Inl f \<Rightarrow> Inl f
                     | Inr s1 \<Rightarrow> Inr (operator_delete a (freeStorage CUDPP_COMPACT a s1)))
                | _ \<Rightarrow> Inl BadCast)))"

definition delete_CUDPPReducePlan :: "plan_ptr \<Rightarrow> state \<Rightarrow> fault + state" where
  "delete_CUDPPReducePlan p s =
     (case p of
        None \<Rightarrow> Inr s
      | Some a \<Rightarrow>
          (case plans s a of
             None \<Rightarrow> Inl DanglingPointer
           | Some obj \<Rightarrow>
               (case derived obj of
                  CUDPPReducePlan tpb mb \<Rightarrow>
                    Inr (operator_delete a (freeStorage CUDPP_REDUCE a s))
                | _ \<Rightarrow> Inl BadCast)))"

definition delete_CUDPPRadixSortPlan :: "plan_ptr \<Rightarrow> state \<Rightarrow> fault + state" where
  "delete_CUDPPRadixSortPlan p s =
     (case p of
        None \<Rightarrow> Inr s
      | Some a \<Rightarrow>
          (case plans s a of
             None \<Rightarrow> Inl DanglingPointer
           | Some obj \<Rightarrow>
               (case derived obj of
                  CUDPPRadixSortPlan scanPlan bKeysOnly \<Rightarrow>
                    (case delete_CUDPPScanPlan scanPlan s of
                       Inl f \<Rightarrow> Inl f
                     | Inr s1 \<Rightarrow> Inr (operator_delete a (freeStorage CUDPP_SORT_RADIX a s1)))
                | _ \<Rightarrow> Inl BadCast)))"

definition delete_CUDPPSparseMatrixVectorMultiplyPlan :: "plan_ptr \<Rightarrow> state \<Rightarrow> fault + state" where
  "delete_CUDPPSparseMatrixVectorMultiplyPlan p s =
     (case p of
        None \<Rightarrow> Inr s
      | Some a \<Rightarrow>
          (case plans s a of
             None \<Rightarrow> Inl DanglingPointer
           | Some obj \<Rightarrow>
               (case derived obj of
                  CUDPPSparseMatrixVectorMultiplyPlan segmentedScanPlan rowFinalIndex nr nnz \<Rightarrow>
                    (case delete_CUDPPSegmentedScanPlan segmentedScanPlan
                            (freeStorage CUDPP_SPMVMULT a s) of
                       Inl f \<Rightarrow> Inl f
                     | Inr s1 \<Rightarrow>
                         Inr (operator_delete a (s1\<lparr>trace := trace s1 @ [DeleteArray a]\<rparr>)))
                | _ \<Rightarrow> Inl BadCast)))"

text \<open>The random-number plan has no destructor body.\<close>

definition delete_CUDPPRandPlan :: "plan_ptr \<Rightarrow> state \<Rightarrow> fault + state" where
  "delete_CUDPPRandPlan p s =
     (case p of
        None \<Rightarrow> Inr s
      | Some a \<Rightarrow>
          (case plans s a of
             None \<Rightarrow> Inl DanglingPointer
           | Some obj \<Rightarrow>
               (case derived obj of
                  CUDPPRandPlan seed \<Rightarrow> Inr (operator_delete a s)
                | _ \<Rightarrow> Inl BadCast)))"

subsection \<open>The plan interface\<close>

text \<open>
  \<open>cudppPlan\<close>. The argument \<open>planHandle\<close> is what the caller's handle variable holds
  before the call; the result carries what it holds afterwards.
\<close>

definition return_plan :: "plan_ptr \<Rightarrow> CUDPPHandle \<Rightarrow> state \<Rightarrow> CUDPPResult \<times> CUDPPHandle \<times> state" where
  "return_plan plan planHandle s =
     (case plan of
        None \<Rightarrow> (CUDPP_ERROR_UNKNOWN, planHandle, s)
      | Some a \<Rightarrow> (CUDPP_SUCCESS, getHandle a, s))"

definition cudppPlan ::
  "cudpp_macros \<Rightarrow> CUDPPHandle \<Rightarrow> CUDPPHandle \<Rightarrow> CUDPPConfiguration \<Rightarrow> size_t \<Rightarrow> size_t \<Rightarrow> size_t
     \<Rightarrow> state \<Rightarrow> fault + CUDPPResult \<times> CUDPPHandle \<times> state" where
  "cudppPlan M cudppHandle planHandle config numElements numRows rowPitch s =
     (let mgr = getManagerFromHandle cudppHandle;
          result = validateOptions M config numElements numRows rowPitch
      in if result \<noteq> CUDPP_SUCCESS then Inr (result, CUDPP_INVALID_HANDLE, s)
         else
           (case algorithm config of
              CUDPP_SCAN \<Rightarrow>
                (case new_CUDPPScanPlan mgr config numElements numRows rowPitch s of
                   (plan, s') \<Rightarrow> Inr (return_plan plan planHandle s'))
            | CUDPP_COMPACT \<Rightarrow>
                (case new_CUDPPCompactPlan M mgr config numElements numRows rowPitch s of
                   Inl f \<Rightarrow> Inl f
                 | Inr (plan, s') \<Rightarrow> Inr (return_plan plan planHandle s'))
            | CUDPP_SORT_RADIX \<Rightarrow>
                (case new_CUDPPRadixSortPlan M mgr config numElements s of
                   Inl f \<Rightarrow> Inl f
                 | Inr (plan, s') \<Rightarrow> Inr (return_plan plan planHandle s'))
            | CUDPP_SEGMENTED_SCAN \<Rightarrow>
                (case new_CUDPPSegmentedScanPlan mgr config numElements s of
                   (plan, s') \<Rightarrow> Inr (return_plan plan planHandle s'))
            | CUDPP_RAND_MD5 \<Rightarrow>
                (case new_CUDPPRandPlan mgr config numElements s of
                   (plan, s') \<Rightarrow> Inr (return_plan plan planHandle s'))
            | CUDPP_REDUCE \<Rightarrow>
                (case new_CUDPPReducePlan M mgr config numElements s of
                   (plan, s') \<Rightarrow> Inr (return_plan plan planHandle s'))
            | _ \<Rightarrow> Inr (CUDPP_ERROR_ILLEGAL_CONFIGURATION, planHandle, s)))"

definition cudppDestroyPlan :: "CUDPPHandle \<Rightarrow> state \<Rightarrow> fault + CUDPPResult \<times> state" where
  "cudppDestroyPlan planHandle s =
     (if planHandle = CUDPP_INVALID_HANDLE then Inr (CUDPP_ERROR_INVALID_HANDLE, s)
      else
        let plan = getPlanPtrFromHandle s planHandle
        in case deref s plan of
             Inl f \<Rightarrow> Inl f
           | Inr obj \<Rightarrow>
               (case algorithm (m_config obj) of
                  CUDPP_SCAN \<Rightarrow>
                    (case delete_CUDPPScanPlan plan s of
                       Inl f \<Rightarrow> Inl f | Inr s' \<Rightarrow> Inr (CUDPP_SUCCESS, s'))
                | CUDPP_COMPACT \<Rightarrow>
                    (case delete_CUDPPCompactPlan plan s of
                       Inl f \<Rightarrow> Inl f | Inr s' \<Rightarrow> Inr (CUDPP_SUCCESS, s'))
                | CUDPP_SORT_RADIX \<Rightarrow>
                    (case delete_CUDPPRadixSortPlan plan s of
                       Inl f \<Rightarrow> Inl f | Inr s' \<Rightarrow> Inr (CUDPP_SUCCESS, s'))
                | CUDPP_SEGMENTED_SCAN \<Rightarrow>
                    (case delete_CUDPPSegmentedScanPlan plan s of
                       Inl f \<Rightarrow> Inl f | Inr s' \<Rightarrow> Inr (CUDPP_SUCCESS, s'))
                | CUDPP_RAND_MD5 \<Rightarrow>
                    (case delete_CUDPPRandPlan plan s of
                       Inl f \<Rightarrow> Inl f | Inr s' \<Rightarrow> Inr (CUDPP_SUCCESS, s'))
                | CUDPP_REDUCE \<Rightarrow>
                    (case delete_CUDPPReducePlan plan s of
                       Inl f \<Rightarrow> Inl f | Inr s' \<Rightarrow> Inr (CUDPP_SUCCESS, s'))
                | _ \<Rightarrow> Inr (CUDPP_ERROR_ILLEGAL_CONFIGURATION, s)))"

definition cudppSparseMatrix ::
  "cudpp_macros \<Rightarrow> CUDPPHandle \<Rightarrow> CUDPPHandle \<Rightarrow> CUDPPConfiguration \<Rightarrow> size_t \<Rightarrow> size_t
     \<Rightarrow> uint list \<Rightarrow> uint list \<Rightarrow> uint list \<Rightarrow> state
     \<Rightarrow> fault + CUDPPResult \<times> CUDPPHandle \<times> state" where
  "cudppSparseMatrix M cudppHandle sparseMatrixHandle config numNonZeroElements numRows A
       h_rowIndices h_indices s =
     (let mgr = getManagerFromHandle cudppHandle;
          result = (if algorithm config \<noteq> CUDPP_SPMVMULT \<or> numNonZeroElements \<le> 0 \<or> numRows \<le> 0
                    then CUDPP_ERROR_ILLEGAL_CONFIGURATION else CUDPP_SUCCESS)
      in if result \<noteq> CUDPP_SUCCESS then Inr (result, CUDPP_INVALID_HANDLE, s)
         else
           (case new_CUDPPSparseMatrixVectorMultiplyPlan M mgr config numNonZeroElements A
                   h_rowIndices h_indices numRows s of
              Inl f \<Rightarrow> Inl f
            | Inr (sparseMatrix, s') \<Rightarrow>
                (case sparseMatrix of
                   Some a \<Rightarrow> Inr (CUDPP_SUCCESS, getHandle a, s')
                 | None \<Rightarrow> Inr (CUDPP_ERROR_UNKNOWN, sparseMatrixHandle, s'))))"

definition cudppDestroySparseMatrix :: "CUDPPHandle \<Rightarrow> state \<Rightarrow> fault + CUDPPResult \<times> state" where
  "cudppDestroySparseMatrix sparseMatrixHandle s =
     (if sparseMatrixHandle = CUDPP_INVALID_HANDLE then Inr (CUDPP_ERROR_INVALID_HANDLE, s)
      else
        (case delete_CUDPPSparseMatrixVectorMultiplyPlan
                (getPlanPtrFromHandle s sparseMatrixHandle) s of
           Inl f \<Rightarrow> Inl f
         | Inr s' \<Rightarrow> Inr (CUDPP_SUCCESS, s')))"

text \<open>
  A set of values for the macros, for running the functions: one bit for each option, a
  sort CTA of 512 and a reduce CTA of 256.
\<close>

definition example_macros :: cudpp_macros where
  "example_macros =
     \<lparr>CUDPP_OPTION_FORWARD = 1, CUDPP_OPTION_BACKWARD = 2, CUDPP_OPTION_EXCLUSIVE = 4,
      CUDPP_OPTION_INCLUSIVE = 8, CUDPP_OPTION_KEYS_ONLY = 32, SORT_CTA_SIZE = 512,
      REDUCE_CTA_SIZE = 256\<rparr>"

subsection \<open>Observations and sample states\<close>

text \<open>\<open>precedes x y xs\<close>: some occurrence of \<open>x\<close> in \<open>xs\<close> comes before an occurrence of \<open>y\<close>.\<close>

fun precedes :: "'a \<Rightarrow> 'a \<Rightarrow> 'a list \<Rightarrow> bool" where
  "precedes x y [] = False"
| "precedes x y (z # zs) = ((z = x \<and> y \<in> set zs) \<or> precedes x y zs)"

text \<open>
  A plan is of the class that belongs to its algorithm tag, and the plan it owns (if its
  class owns one) is a live plan of the owned class. This is how \<open>cudppPlan\<close> and
  \<open>cudppSparseMatrix\<close> leave the plans they create.
\<close>

definition points_to :: "state \<Rightarrow> plan_ptr \<Rightarrow> plan_class \<Rightarrow> bool" where
  "points_to s p c =
     (case p of
        None \<Rightarrow> False
      | Some b \<Rightarrow> (case plans s b of None \<Rightarrow> False | Some nobj \<Rightarrow> derived nobj = c))"

definition class_matches_tag :: "state \<Rightarrow> CUDPPPlan \<Rightarrow> bool" where
  "class_matches_tag s obj =
     (case derived obj of
        CUDPPScanPlan \<Rightarrow> algorithm (m_config obj) = CUDPP_SCAN
      | CUDPPSegmentedScanPlan \<Rightarrow> algorithm (m_config obj) = CUDPP_SEGMENTED_SCAN
      | CUDPPCompactPlan scanPlan \<Rightarrow>
          algorithm (m_config obj) = CUDPP_COMPACT \<and> points_to s scanPlan CUDPPScanPlan
      | CUDPPReducePlan tpb mb \<Rightarrow> algorithm (m_config obj) = CUDPP_REDUCE
      | CUDPPRadixSortPlan scanPlan bKeysOnly \<Rightarrow>
          algorithm (m_config obj) = CUDPP_SORT_RADIX \<and> points_to s scanPlan CUDPPScanPlan
      | CUDPPSparseMatrixVectorMultiplyPlan segmentedScanPlan rowFinalIndex nr nnz \<Rightarrow>
          algorithm (m_config obj) = CUDPP_SPMVMULT \<and>
          points_to s segmentedScanPlan CUDPPSegmentedScanPlan
      | CUDPPRandPlan seed \<Rightarrow> algorithm (m_config obj) = CUDPP_RAND_MD5)"

text \<open>
  The states after creating a scan plan, after destroying it again, after creating a
  compact plan, after creating a radix-sort plan, and after creating a sparse-matrix plan
  for three rows, each from the initial state with the sample macros.
\<close>

definition scan_created :: state where
  "scan_created =
     \<lparr>plans = [0 \<mapsto> \<lparr>m_config = \<lparr>algorithm = CUDPP_SCAN, op = CUDPP_ADD,
                                   datatype_t = CUDPP_INT, options = 5\<rparr>,
                       m_numElements = 100, m_numRows = 1, m_rowPitch = 0,
                       m_planManager = Handle 0, derived = CUDPPScanPlan\<rparr>],
      next_handle = 1,
      trace = [New 0, AllocStorage CUDPP_SCAN 0]\<rparr>"

definition scan_destroyed :: state where
  "scan_destroyed =
     \<lparr>plans = Map.empty, next_handle = 1,
      trace = [New 0, AllocStorage CUDPP_SCAN 0, FreeStorage CUDPP_SCAN 0, Delete 0]\<rparr>"

definition compact_created :: state where
  "compact_created =
     \<lparr>plans = [1 \<mapsto> \<lparr>m_config = \<lparr>algorithm = CUDPP_SCAN, op = CUDPP_ADD,
                                   datatype_t = CUDPP_UINT, options = 5\<rparr>,
                       m_numElements = 100, m_numRows = 1, m_rowPitch = 0,
                       m_planManager = Handle 0, derived = CUDPPScanPlan\<rparr>,
               0 \<mapsto> \<lparr>m_config = \<lparr>algorithm = CUDPP_COMPACT, op = CUDPP_ADD,
                                   datatype_t = CUDPP_INT, options = 1\<rparr>,
                       m_numElements = 100, m_numRows = 1, m_rowPitch = 0,
                       m_planManager = Handle 0, derived = CUDPPCompactPlan (Some 1)\<rparr>],
      next_handle = 2,
      trace = [New 0, New 1, AllocStorage CUDPP_SCAN 1, AllocStorage CUDPP_COMPACT 0]\<rparr>"

definition radixsort_created :: state where
  "radixsort_created =
     \<lparr>plans = [1 \<mapsto> \<lparr>m_config = \<lparr>algorithm = CUDPP_SCAN, op = CUDPP_ADD,
                                   datatype_t = CUDPP_UINT, options = 5\<rparr>,
                       m_numElements = 16, m_numRows = 1, m_rowPitch = 0,
                       m_planManager = Handle 0, derived = CUDPPScanPlan\<rparr>,
               0 \<mapsto> \<lparr>m_config = \<lparr>algorithm = CUDPP_SORT_RADIX, op = CUDPP_ADD,
                                   datatype_t = CUDPP_UINT, options = 32\<rparr>,
                       m_numElements = 1000, m_numRows = 1, m_rowPitch = 0,
                       m_planManager = Handle 0,
                       derived = CUDPPRadixSortPlan (Some 1) True\<rparr>],
      next_handle = 2,
      trace = [New 0, New 1, AllocStorage CUDPP_SCAN 1, AllocStorage CUDPP_SORT_RADIX 0]\<rparr>"

definition spmv_created :: state where
  "spmv_created =
     \<lparr>plans = [1 \<mapsto> \<lparr>m_config = \<lparr>algorithm = CUDPP_SEGMENTED_SCAN, op = CUDPP_ADD,
                                   datatype_t = CUDPP_FLOAT, options = 9\<rparr>,
                       m_numElements = 12, m_numRows = 1, m_rowPitch = 0,
                       m_planManager = Handle 0, derived = CUDPPSegmentedScanPlan\<rparr>,
               0 \<mapsto> \<lparr>m_config = \<lparr>algorithm = CUDPP_SPMVMULT, op = CUDPP_ADD,
                                   datatype_t = CUDPP_FLOAT, options = 0\<rparr>,
                       m_numElements = 12, m_numRows = 1, m_rowPitch = 0,
                       m_planManager = Handle 0,
                       derived = CUDPPSparseMatrixVectorMultiplyPlan (Some 1) [4, 9, 12] 3 12\<rparr>],
      next_handle = 2,
      trace = [New 0, New 1, AllocStorage CUDPP_SEGMENTED_SCAN 1, NewArray 0,
               AllocStorage CUDPP_SPMVMULT 0]\<rparr>"

section \<open>Properties\<close>

subsection \<open>Validation failures of cudppPlan\<close>

text \<open>
  C1. Whenever both the forward and the backward option are set, or both the exclusive and
  the inclusive option are set, or the algorithm is compact with more than one row,
  \<open>cudppPlan\<close> returns the illegal-configuration error, sets the caller's plan handle to
  the invalid sentinel, and leaves the state as it was: no object is created and no
  storage routine is called.
\<close>

theorem createPlan_rejects_illegal_configuration:
  assumes "(options config AND CUDPP_OPTION_FORWARD M \<noteq> 0 \<and>
            options config AND CUDPP_OPTION_BACKWARD M \<noteq> 0)
         \<or> (options config AND CUDPP_OPTION_EXCLUSIVE M \<noteq> 0 \<and>
            options config AND CUDPP_OPTION_INCLUSIVE M \<noteq> 0)
         \<or> (algorithm config = CUDPP_COMPACT \<and> 1 < numRows)"
  shows "cudppPlan M cudppHandle planHandle config numElements numRows rowPitch s
           = Inr (CUDPP_ERROR_ILLEGAL_CONFIGURATION, CUDPP_INVALID_HANDLE, s)"
proof -
  have "validateOptions M config numElements numRows rowPitch
          = CUDPP_ERROR_ILLEGAL_CONFIGURATION"
    using assms by (auto simp: validateOptions_def Let_def)
  then show ?thesis
    by (simp add: cudppPlan_def Let_def)
qed

theorem createPlan_rejects_illegal_configuration_witness:
  "cudppPlan example_macros (Handle 7) (Handle 9)
     \<lparr>algorithm = CUDPP_SCAN, op = CUDPP_ADD, datatype_t = CUDPP_INT, options = 3\<rparr>
     100 1 0 init_state
     = Inr (CUDPP_ERROR_ILLEGAL_CONFIGURATION, CUDPP_INVALID_HANDLE, init_state)
   \<and> cudppPlan example_macros (Handle 7) (Handle 9)
     \<lparr>algorithm = CUDPP_SORT_RADIX, op = CUDPP_ADD, datatype_t = CUDPP_INT, options = 12\<rparr>
     100 1 0 init_state
     = Inr (CUDPP_ERROR_ILLEGAL_CONFIGURATION, CUDPP_INVALID_HANDLE, init_state)
   \<and> cudppPlan example_macros (Handle 7) (Handle 9)
     \<lparr>algorithm = CUDPP_COMPACT, op = CUDPP_ADD, datatype_t = CUDPP_INT, options = 1\<rparr>
     100 2 100 init_state
     = Inr (CUDPP_ERROR_ILLEGAL_CONFIGURATION, CUDPP_INVALID_HANDLE, init_state)"
  using createPlan_rejects_illegal_configuration
          [of "\<lparr>algorithm = CUDPP_SCAN, op = CUDPP_ADD, datatype_t = CUDPP_INT, options = 3\<rparr>"
              example_macros 1 "Handle 7" "Handle 9" 100 0 init_state]
        createPlan_rejects_illegal_configuration
          [of "\<lparr>algorithm = CUDPP_SORT_RADIX, op = CUDPP_ADD, datatype_t = CUDPP_INT,
                 options = 12\<rparr>"
              example_macros 1 "Handle 7" "Handle 9" 100 0 init_state]
        createPlan_rejects_illegal_configuration
          [of "\<lparr>algorithm = CUDPP_COMPACT, op = CUDPP_ADD, datatype_t = CUDPP_INT,
                 options = 1\<rparr>"
              example_macros 2 "Handle 7" "Handle 9" 100 100 init_state]
  by (simp add: example_macros_def)

subsection \<open>What each constructor returns\<close>

lemma new_CUDPPScanPlan_result:
  "new_CUDPPScanPlan mgr config numElements numRows rowPitch s =
     (Some (next_handle s),
      s\<lparr>plans := (plans s)(next_handle s \<mapsto>
            \<lparr>m_config = config, m_numElements = numElements, m_numRows = numRows,
             m_rowPitch = rowPitch, m_planManager = mgr, derived = CUDPPScanPlan\<rparr>),
        next_handle := Suc (next_handle s),
        trace := trace s @ [New (next_handle s), AllocStorage CUDPP_SCAN (next_handle s)]\<rparr>)"
  by (simp add: new_CUDPPScanPlan_def operator_new_def allocStorage_def construct_def
      CUDPPPlan_ctor_def)

lemma new_CUDPPSegmentedScanPlan_result:
  "new_CUDPPSegmentedScanPlan mgr config numElements s =
     (Some (next_handle s),
      s\<lparr>plans := (plans s)(next_handle s \<mapsto>
            \<lparr>m_config = config, m_numElements = numElements, m_numRows = 1,
             m_rowPitch = 0, m_planManager = mgr, derived = CUDPPSegmentedScanPlan\<rparr>),
        next_handle := Suc (next_handle s),
        trace := trace s @
          [New (next_handle s), AllocStorage CUDPP_SEGMENTED_SCAN (next_handle s)]\<rparr>)"
  by (simp add: new_CUDPPSegmentedScanPlan_def operator_new_def allocStorage_def construct_def
      CUDPPPlan_ctor_def)

lemma new_CUDPPReducePlan_result:
  "new_CUDPPReducePlan M mgr config numElements s =
     (Some (next_handle s),
      s\<lparr>plans := (plans s)(next_handle s \<mapsto>
            \<lparr>m_config = config, m_numElements = numElements, m_numRows = 1,
             m_rowPitch = 0, m_planManager = mgr,
             derived = CUDPPReducePlan (REDUCE_CTA_SIZE M) 64\<rparr>),
        next_handle := Suc (next_handle s),
        trace := trace s @ [New (next_handle s), AllocStorage CUDPP_REDUCE (next_handle s)]\<rparr>)"
  by (simp add: new_CUDPPReducePlan_def operator_new_def allocStorage_def construct_def
      CUDPPPlan_ctor_def)

lemma new_CUDPPRandPlan_result:
  "new_CUDPPRandPlan mgr config numElements s =
     (Some (next_handle s),
      s\<lparr>plans := (plans s)(next_handle s \<mapsto>
            \<lparr>m_config = config, m_numElements = numElements, m_numRows = 1,
             m_rowPitch = 0, m_planManager = mgr, derived = CUDPPRandPlan 0\<rparr>),
        next_handle := Suc (next_handle s),
        trace := trace s @ [New (next_handle s)]\<rparr>)"
  by (simp add: new_CUDPPRandPlan_def operator_new_def construct_def CUDPPPlan_ctor_def)

lemma new_CUDPPCompactPlan_result:
  "new_CUDPPCompactPlan M mgr config numElements 1 rowPitch s =
     Inr (Some (next_handle s),
      s\<lparr>plans := (plans s)
           (Suc (next_handle s) \<mapsto>
              \<lparr>m_config =
                 \<lparr>algorithm = CUDPP_SCAN, op = CUDPP_ADD, datatype_t = CUDPP_UINT,
                  options =
                    (if options config AND CUDPP_OPTION_BACKWARD M \<noteq> 0
                     then CUDPP_OPTION_BACKWARD M OR CUDPP_OPTION_EXCLUSIVE M
                     else CUDPP_OPTION_FORWARD M OR CUDPP_OPTION_EXCLUSIVE M)\<rparr>,
               m_numElements = numElements, m_numRows = 1, m_rowPitch = rowPitch,
               m_planManager = mgr, derived = CUDPPScanPlan\<rparr>,
            next_handle s \<mapsto>
              \<lparr>m_config = config, m_numElements = numElements, m_numRows = 1,
               m_rowPitch = rowPitch, m_planManager = mgr,
               derived = CUDPPCompactPlan (Some (Suc (next_handle s)))\<rparr>),
        next_handle := Suc (Suc (next_handle s)),
        trace := trace s @
          [New (next_handle s), New (Suc (next_handle s)),
           AllocStorage CUDPP_SCAN (Suc (next_handle s)),
           AllocStorage CUDPP_COMPACT (next_handle s)]\<rparr>)"
  by (simp add: new_CUDPPCompactPlan_def new_CUDPPScanPlan_result operator_new_def
      allocStorage_def construct_def CUDPPPlan_ctor_def Let_def)

lemma new_CUDPPRadixSortPlan_result:
  "SORT_CTA_SIZE M * 2 \<noteq> 0 \<Longrightarrow>
   new_CUDPPRadixSortPlan M mgr config numElements s =
     Inr (Some (next_handle s),
      s\<lparr>plans := (plans s)
           (Suc (next_handle s) \<mapsto>
              \<lparr>m_config =
                 \<lparr>algorithm = CUDPP_SCAN, op = CUDPP_ADD, datatype_t = CUDPP_UINT,
                  options = CUDPP_OPTION_FORWARD M OR CUDPP_OPTION_EXCLUSIVE M\<rparr>,
               m_numElements = numBlocks2 M numElements * 16, m_numRows = 1, m_rowPitch = 0,
               m_planManager = mgr, derived = CUDPPScanPlan\<rparr>,
            next_handle s \<mapsto>
              \<lparr>m_config = config, m_numElements = numElements, m_numRows = 1,
               m_rowPitch = 0, m_planManager = mgr,
               derived = CUDPPRadixSortPlan (Some (Suc (next_handle s)))
                           (options config = CUDPP_OPTION_KEYS_ONLY M)\<rparr>),
        next_handle := Suc (Suc (next_handle s)),
        trace := trace s @
          [New (next_handle s), New (Suc (next_handle s)),
           AllocStorage CUDPP_SCAN (Suc (next_handle s)),
           AllocStorage CUDPP_SORT_RADIX (next_handle s)]\<rparr>)"
  by (simp add: new_CUDPPRadixSortPlan_def new_CUDPPScanPlan_result operator_new_def
      allocStorage_def construct_def CUDPPPlan_ctor_def Let_def)

subsection \<open>The nested scan plan of a radix-sort plan\<close>

text \<open>The rounded-up quotient of two natural numbers, by division and remainder.\<close>

lemma ceil_div_nat:
  fixes n d :: nat
  assumes "0 < d"
  shows "nat \<lceil>real n / real d\<rceil> = (if n mod d = 0 then n div d else n div d + 1)"
proof -
  define k where "k = (if n mod d = 0 then n div d else n div d + 1)"
  have n: "n = (n div d) * d + n mod d" by simp
  have lo: "int k * int d < int n + int d"
  proof (cases "n mod d = 0")
    case True
    then have "k * d = n" using n by (simp add: k_def)
    then have "int k * int d = int n" by (metis of_nat_mult)
    then show ?thesis using assms by simp
  next
    case False
    then have "k * d = (n div d) * d + d" by (simp add: k_def)
    moreover have "(n div d) * d < n" using False n
      by (metis add.right_neutral less_add_same_cancel1 not_gr_zero)
    ultimately have "k * d < n + d" by simp
    then show ?thesis by (metis of_nat_add of_nat_less_iff of_nat_mult)
  qed
  have hi: "int n \<le> int k * int d"
  proof -
    have r: "n mod d < d" using assms by simp
    have "n \<le> k * d"
    proof (cases "n mod d = 0")
      case True
      then have "k * d = n div d * d" by (simp add: k_def)
      then show ?thesis using n True by linarith
    next
      case False
      then have "k * d = n div d * d + d" by (simp add: k_def)
      then show ?thesis using r n by linarith
    qed
    then show ?thesis by (metis of_nat_le_iff of_nat_mult)
  qed
  have "\<lceil>real n / real d\<rceil> = int k"
  proof (rule ceiling_unique)
    have "(real_of_int (int k) - 1) * real d < real n"
      using lo by (simp add: algebra_simps) (metis of_nat_add of_nat_less_iff of_nat_mult)
    then show "real_of_int (int k) - 1 < real n / real d"
      using assms by (simp add: pos_less_divide_eq)
    have "real n \<le> real_of_int (int k) * real d"
      using hi by simp (metis of_nat_le_iff of_nat_mult)
    then show "real n / real d \<le> real_of_int (int k)"
      using assms by (simp add: pos_divide_le_eq)
  qed
  then show ?thesis by (simp add: k_def)
qed

lemma unat_twice_cta:
  fixes T :: size_t
  assumes "unat T < 2 ^ 63"
  shows "unat (T * 2) = 2 * unat T"
proof -
  have "unat T * unat (2 :: size_t) < 2 ^ LENGTH(64)" using assms by simp
  then have "unat (T * 2) = unat T * unat (2 :: size_t)"
    by (simp only: unat_mult_lem [THEN iffD1])
  then show ?thesis by simp
qed

lemma unat_numBlocks2_div:
  assumes "0 < unat (SORT_CTA_SIZE M)" and "unat (SORT_CTA_SIZE M) < 2 ^ 63"
  shows "unat (numBlocks2 M n) =
           (if unat n mod (2 * unat (SORT_CTA_SIZE M)) = 0
            then unat n div (2 * unat (SORT_CTA_SIZE M))
            else unat n div (2 * unat (SORT_CTA_SIZE M)) + 1)"
proof -
  let ?d = "SORT_CTA_SIZE M * 2"
  have d: "unat ?d = 2 * unat (SORT_CTA_SIZE M)"
    using assms(2) by (rule unat_twice_cta)
  have q: "unat (n div ?d) = unat n div unat ?d" by (simp add: unat_div)
  have r: "unat (n mod ?d) = unat n mod unat ?d" by (simp add: unat_mod)
  have z: "(n mod ?d = 0) = (unat n mod unat ?d = 0)"
    using r by (metis unat_eq_zero)
  have "unat n div unat ?d \<le> unat n div 2"
    using assms(1) d by (simp add: div_le_mono2)
  moreover have "unat n < 2 ^ 64" using unsigned_less [of n] by simp
  ultimately have small: "unat n div unat ?d + 1 < 2 ^ 64" by simp
  have q1: "unat (n div ?d + 1) = unat n div unat ?d + 1"
  proof -
    have "unat (n div ?d) + unat (1 :: size_t) < 2 ^ LENGTH(64)"
      using small q by simp
    then have "unat (n div ?d + 1) = unat (n div ?d) + unat (1 :: size_t)"
      by (simp only: unat_add_lem [THEN iffD1])
    then show ?thesis using q by simp
  qed
  show ?thesis
    unfolding numBlocks2_def using z q q1 d by simp
qed

lemma unat_numBlocks2:
  assumes "0 < unat (SORT_CTA_SIZE M)" and "unat (SORT_CTA_SIZE M) < 2 ^ 63"
  shows "unat (numBlocks2 M n) = nat \<lceil>real (unat n) / real (2 * unat (SORT_CTA_SIZE M))\<rceil>"
proof -
  have "0 < 2 * unat (SORT_CTA_SIZE M)" using assms(1) by simp
  from ceil_div_nat [OF this, of "unat n"] unat_numBlocks2_div [OF assms, of n]
  show ?thesis by simp
qed

lemma unat_numBlocks2_times_16:
  assumes "16 \<le> unat (SORT_CTA_SIZE M)" and "unat (SORT_CTA_SIZE M) < 2 ^ 63"
  shows "unat (numBlocks2 M n * 16) =
           16 * nat \<lceil>real (unat n) / real (2 * unat (SORT_CTA_SIZE M))\<rceil>"
proof -
  have pos: "0 < unat (SORT_CTA_SIZE M)" using assms(1) by simp
  have "unat (numBlocks2 M n) \<le> unat n div (2 * unat (SORT_CTA_SIZE M)) + 1"
    using unat_numBlocks2_div [OF pos assms(2), of n] by simp
  moreover have "unat n div (2 * unat (SORT_CTA_SIZE M)) \<le> unat n div 32"
    using assms(1) by (simp add: div_le_mono2)
  moreover have "unat n < 2 ^ 64" using unsigned_less [of n] by simp
  ultimately have "unat (numBlocks2 M n) * 16 < 2 ^ 64" by simp
  then have "unat (numBlocks2 M n) * unat (16 :: size_t) < 2 ^ LENGTH(64)" by simp
  then have "unat (numBlocks2 M n * 16) = unat (numBlocks2 M n) * unat (16 :: size_t)"
    by (simp only: unat_mult_lem [THEN iffD1])
  then show ?thesis using unat_numBlocks2 [OF pos assms(2), of n] by simp
qed

text \<open>
  C5. With a sort CTA size of at least 16 and below \<open>2 ^ 30\<close> (so that twice the size
  is the same number in every integer type of C the constant may have), the radix-sort
  constructor computes \<open>numBlocks2\<close> as the quotient of \<open>numElements\<close> by twice the CTA
  size, rounded up, for every \<open>numElements\<close>; the scan plan it owns is made for exactly
  16 times that many elements, with one row and a row pitch of 0. For 1000 elements and a
  CTA size of 512 that is one block and 16 elements.
\<close>

theorem radixsort_nested_scan_size:
  assumes "16 \<le> unat (SORT_CTA_SIZE M)" and "unat (SORT_CTA_SIZE M) < 2 ^ 30"
  shows "\<exists>s' obj nested nobj.
           new_CUDPPRadixSortPlan M mgr config numElements s = Inr (Some (next_handle s), s')
         \<and> plans s' (next_handle s) = Some obj
         \<and> m_scanPlan (derived obj) = Some nested
         \<and> plans s' nested = Some nobj
         \<and> derived nobj = CUDPPScanPlan
         \<and> unat (numBlocks2 M numElements)
             = nat \<lceil>real (unat numElements) / real (2 * unat (SORT_CTA_SIZE M))\<rceil>
         \<and> m_numElements nobj = numBlocks2 M numElements * 16
         \<and> unat (m_numElements nobj)
             = 16 * nat \<lceil>real (unat numElements) / real (2 * unat (SORT_CTA_SIZE M))\<rceil>
         \<and> m_numRows nobj = 1 \<and> m_rowPitch nobj = 0"
proof -
  have pos: "0 < unat (SORT_CTA_SIZE M)" using assms(1) by simp
  have fits: "unat (SORT_CTA_SIZE M) < 2 ^ 63" using assms(2) by simp
  have "unat (SORT_CTA_SIZE M * 2) = 2 * unat (SORT_CTA_SIZE M)"
    using fits by (rule unat_twice_cta)
  then have "unat (SORT_CTA_SIZE M * 2) \<noteq> 0" using pos by simp
  then have nz: "SORT_CTA_SIZE M * 2 \<noteq> 0" by (simp add: unat_eq_zero)
  show ?thesis
    using unat_numBlocks2 [OF pos fits, of numElements]
      unat_numBlocks2_times_16 [OF assms(1) fits, of numElements]
    by (simp add: new_CUDPPRadixSortPlan_result [OF nz])
qed

theorem radixsort_nested_scan_size_witness:
  "\<exists>s' obj nested nobj.
     new_CUDPPRadixSortPlan example_macros (Handle 0)
       \<lparr>algorithm = CUDPP_SORT_RADIX, op = CUDPP_ADD, datatype_t = CUDPP_UINT, options = 32\<rparr>
       1000 init_state = Inr (Some 0, s')
   \<and> plans s' 0 = Some obj
   \<and> m_scanPlan (derived obj) = Some nested
   \<and> plans s' nested = Some nobj
   \<and> derived nobj = CUDPPScanPlan
   \<and> unat (numBlocks2 example_macros 1000) = 1
   \<and> unat (m_numElements nobj) = 16
   \<and> m_numRows nobj = 1 \<and> m_rowPitch nobj = 0"
  using radixsort_nested_scan_size
          [of example_macros "Handle 0"
              "\<lparr>algorithm = CUDPP_SORT_RADIX, op = CUDPP_ADD, datatype_t = CUDPP_UINT,
                 options = 32\<rparr>" 1000 init_state]
  by (auto simp: example_macros_def init_state_def)

subsection \<open>The scan plan of a compact plan\<close>

text \<open>
  C6. Constructing a compact plan with \<open>numRows = 1\<close> creates exactly one further
  object, a scan plan, whose configuration is algorithm scan, operator add, datatype
  unsigned int and options exclusive with backward when the caller's options have the
  backward bit, exclusive with forward otherwise; it has the caller's \<open>numElements\<close>,
  \<open>numRows\<close> and \<open>rowPitch\<close>, and the compact plan points to it.
\<close>

theorem compact_builds_one_scan_plan:
  assumes "numRows = 1"
  shows "new_CUDPPCompactPlan M mgr config numElements numRows rowPitch s =
     Inr (Some (next_handle s),
      s\<lparr>plans := (plans s)
           (Suc (next_handle s) \<mapsto>
              \<lparr>m_config =
                 \<lparr>algorithm = CUDPP_SCAN, op = CUDPP_ADD, datatype_t = CUDPP_UINT,
                  options =
                    (if options config AND CUDPP_OPTION_BACKWARD M \<noteq> 0
                     then CUDPP_OPTION_EXCLUSIVE M OR CUDPP_OPTION_BACKWARD M
                     else CUDPP_OPTION_EXCLUSIVE M OR CUDPP_OPTION_FORWARD M)\<rparr>,
               m_numElements = numElements, m_numRows = numRows, m_rowPitch = rowPitch,
               m_planManager = mgr, derived = CUDPPScanPlan\<rparr>,
            next_handle s \<mapsto>
              \<lparr>m_config = config, m_numElements = numElements, m_numRows = numRows,
               m_rowPitch = rowPitch, m_planManager = mgr,
               derived = CUDPPCompactPlan (Some (Suc (next_handle s)))\<rparr>),
        next_handle := Suc (Suc (next_handle s)),
        trace := trace s @
          [New (next_handle s), New (Suc (next_handle s)),
           AllocStorage CUDPP_SCAN (Suc (next_handle s)),
           AllocStorage CUDPP_COMPACT (next_handle s)]\<rparr>)"
  using assms by (simp add: new_CUDPPCompactPlan_result or.commute)

theorem compact_builds_one_scan_plan_witness:
  "new_CUDPPCompactPlan example_macros (Handle 0)
     \<lparr>algorithm = CUDPP_COMPACT, op = CUDPP_MAX, datatype_t = CUDPP_FLOAT, options = 10\<rparr>
     100 1 7 init_state =
   Inr (Some 0,
     \<lparr>plans = [1 \<mapsto> \<lparr>m_config = \<lparr>algorithm = CUDPP_SCAN, op = CUDPP_ADD,
                                   datatype_t = CUDPP_UINT, options = 6\<rparr>,
                       m_numElements = 100, m_numRows = 1, m_rowPitch = 7,
                       m_planManager = Handle 0, derived = CUDPPScanPlan\<rparr>,
               0 \<mapsto> \<lparr>m_config = \<lparr>algorithm = CUDPP_COMPACT, op = CUDPP_MAX,
                                   datatype_t = CUDPP_FLOAT, options = 10\<rparr>,
                       m_numElements = 100, m_numRows = 1, m_rowPitch = 7,
                       m_planManager = Handle 0, derived = CUDPPCompactPlan (Some 1)\<rparr>],
      next_handle = 2,
      trace = [New 0, New 1, AllocStorage CUDPP_SCAN 1, AllocStorage CUDPP_COMPACT 0]\<rparr>)
 \<and> new_CUDPPCompactPlan example_macros (Handle 0)
     \<lparr>algorithm = CUDPP_COMPACT, op = CUDPP_MAX, datatype_t = CUDPP_FLOAT, options = 8\<rparr>
     100 1 7 init_state =
   Inr (Some 0,
     \<lparr>plans = [1 \<mapsto> \<lparr>m_config = \<lparr>algorithm = CUDPP_SCAN, op = CUDPP_ADD,
                                   datatype_t = CUDPP_UINT, options = 5\<rparr>,
                       m_numElements = 100, m_numRows = 1, m_rowPitch = 7,
                       m_planManager = Handle 0, derived = CUDPPScanPlan\<rparr>,
               0 \<mapsto> \<lparr>m_config = \<lparr>algorithm = CUDPP_COMPACT, op = CUDPP_MAX,
                                   datatype_t = CUDPP_FLOAT, options = 8\<rparr>,
                       m_numElements = 100, m_numRows = 1, m_rowPitch = 7,
                       m_planManager = Handle 0, derived = CUDPPCompactPlan (Some 1)\<rparr>],
      next_handle = 2,
      trace = [New 0, New 1, AllocStorage CUDPP_SCAN 1, AllocStorage CUDPP_COMPACT 0]\<rparr>)"
  using compact_builds_one_scan_plan
          [of 1 example_macros "Handle 0"
              "\<lparr>algorithm = CUDPP_COMPACT, op = CUDPP_MAX, datatype_t = CUDPP_FLOAT,
                 options = 10\<rparr>" 100 7 init_state]
        compact_builds_one_scan_plan
          [of 1 example_macros "Handle 0"
              "\<lparr>algorithm = CUDPP_COMPACT, op = CUDPP_MAX, datatype_t = CUDPP_FLOAT,
                 options = 8\<rparr>" 100 7 init_state]
  by (simp add: example_macros_def init_state_def)

subsection \<open>The keys-only flag of a radix-sort plan\<close>

lemma or_absorbs_other_bits:
  fixes x b :: uint
  assumes "x OR b = x"
  shows "b AND NOT x = 0"
  by (metis and.assoc and.left_commute and_zero_eq assms word_and_not word_ao_equiv)

text \<open>
  C8. The radix-sort constructor sets the keys-only flag exactly when the whole options
  field equals the keys-only value. No bit is tested: an options field that has the
  keys-only value and any bit besides gives a flag that is false.
\<close>

theorem radixsort_keys_only_flag:
  assumes "SORT_CTA_SIZE M * 2 \<noteq> 0"
  shows "\<exists>s' obj.
           new_CUDPPRadixSortPlan M mgr config numElements s = Inr (Some (next_handle s), s')
         \<and> plans s' (next_handle s) = Some obj
         \<and> (m_bKeysOnly (derived obj) \<longleftrightarrow> options config = CUDPP_OPTION_KEYS_ONLY M)
         \<and> (\<forall>b. options config = CUDPP_OPTION_KEYS_ONLY M OR b
                  \<and> b AND NOT (CUDPP_OPTION_KEYS_ONLY M) \<noteq> 0
                \<longrightarrow> \<not> m_bKeysOnly (derived obj))"
  using or_absorbs_other_bits [of "CUDPP_OPTION_KEYS_ONLY M"]
  by (auto simp: new_CUDPPRadixSortPlan_result [OF assms])

theorem radixsort_keys_only_flag_witness:
  "(\<exists>s' obj.
      new_CUDPPRadixSortPlan example_macros (Handle 0)
        \<lparr>algorithm = CUDPP_SORT_RADIX, op = CUDPP_ADD, datatype_t = CUDPP_UINT, options = 32\<rparr>
        1000 init_state = Inr (Some 0, s')
    \<and> plans s' 0 = Some obj \<and> m_bKeysOnly (derived obj))
 \<and> (\<exists>s' obj.
      new_CUDPPRadixSortPlan example_macros (Handle 0)
        \<lparr>algorithm = CUDPP_SORT_RADIX, op = CUDPP_ADD, datatype_t = CUDPP_UINT, options = 33\<rparr>
        1000 init_state = Inr (Some 0, s')
    \<and> plans s' 0 = Some obj \<and> \<not> m_bKeysOnly (derived obj))"
  using radixsort_keys_only_flag
          [of example_macros "Handle 0"
              "\<lparr>algorithm = CUDPP_SORT_RADIX, op = CUDPP_ADD, datatype_t = CUDPP_UINT,
                 options = 32\<rparr>" 1000 init_state]
        radixsort_keys_only_flag
          [of example_macros "Handle 0"
              "\<lparr>algorithm = CUDPP_SORT_RADIX, op = CUDPP_ADD, datatype_t = CUDPP_UINT,
                 options = 33\<rparr>" 1000 init_state]
  by (auto simp: example_macros_def init_state_def)

subsection \<open>Validation failures of cudppSparseMatrix\<close>

text \<open>
  C9. When the configuration's algorithm is not the sparse matrix-vector multiply, or
  \<open>numNonZeroElements\<close> is 0, or \<open>numRows\<close> is 0, \<open>cudppSparseMatrix\<close> returns the
  illegal-configuration error, sets the caller's handle to the invalid sentinel, and leaves
  the state as it was: no plan is constructed.
\<close>

theorem createSparseMatrix_rejects_illegal_configuration:
  assumes "algorithm config \<noteq> CUDPP_SPMVMULT \<or> numNonZeroElements = 0 \<or> numRows = 0"
  shows "cudppSparseMatrix M cudppHandle sparseMatrixHandle config numNonZeroElements numRows
           A h_rowIndices h_indices s
           = Inr (CUDPP_ERROR_ILLEGAL_CONFIGURATION, CUDPP_INVALID_HANDLE, s)"
  using assms by (auto simp: cudppSparseMatrix_def Let_def)

theorem createSparseMatrix_rejects_illegal_configuration_witness:
  "cudppSparseMatrix example_macros (Handle 0) (Handle 5)
     \<lparr>algorithm = CUDPP_SCAN, op = CUDPP_ADD, datatype_t = CUDPP_FLOAT, options = 0\<rparr>
     12 3 [] [0, 4, 9] [] init_state
     = Inr (CUDPP_ERROR_ILLEGAL_CONFIGURATION, CUDPP_INVALID_HANDLE, init_state)
 \<and> cudppSparseMatrix example_macros (Handle 0) (Handle 5)
     \<lparr>algorithm = CUDPP_SPMVMULT, op = CUDPP_ADD, datatype_t = CUDPP_FLOAT, options = 0\<rparr>
     0 3 [] [0, 4, 9] [] init_state
     = Inr (CUDPP_ERROR_ILLEGAL_CONFIGURATION, CUDPP_INVALID_HANDLE, init_state)
 \<and> cudppSparseMatrix example_macros (Handle 0) (Handle 5)
     \<lparr>algorithm = CUDPP_SPMVMULT, op = CUDPP_ADD, datatype_t = CUDPP_FLOAT, options = 0\<rparr>
     12 0 [] [0, 4, 9] [] init_state
     = Inr (CUDPP_ERROR_ILLEGAL_CONFIGURATION, CUDPP_INVALID_HANDLE, init_state)"
  using createSparseMatrix_rejects_illegal_configuration
          [of "\<lparr>algorithm = CUDPP_SCAN, op = CUDPP_ADD, datatype_t = CUDPP_FLOAT,
                 options = 0\<rparr>" 12 3 example_macros "Handle 0" "Handle 5" "[]" "[0, 4, 9]" "[]"
              init_state]
        createSparseMatrix_rejects_illegal_configuration
          [of "\<lparr>algorithm = CUDPP_SPMVMULT, op = CUDPP_ADD, datatype_t = CUDPP_FLOAT,
                 options = 0\<rparr>" 0 3 example_macros "Handle 0" "Handle 5" "[]" "[0, 4, 9]" "[]"
              init_state]
        createSparseMatrix_rejects_illegal_configuration
          [of "\<lparr>algorithm = CUDPP_SPMVMULT, op = CUDPP_ADD, datatype_t = CUDPP_FLOAT,
                 options = 0\<rparr>" 12 0 example_macros "Handle 0" "Handle 5" "[]" "[0, 4, 9]" "[]"
              init_state]
  by simp

subsection \<open>The rows and the pitch a plan records\<close>

lemma validated_compact_rows:
  fixes numRows :: size_t
  assumes "validateOptions M config numElements numRows rowPitch = CUDPP_SUCCESS"
    and "algorithm config = CUDPP_COMPACT" and "numRows \<noteq> 0"
  shows "numRows = 1"
proof -
  have "\<not> 1 < numRows"
    using assms(1,2) by (auto simp: validateOptions_def Let_def split: if_splits)
  then have "unat numRows \<le> 1" by (simp add: word_less_nat_alt)
  moreover have "unat numRows \<noteq> 0" using assms(3) by (simp add: unat_eq_zero)
  ultimately have "unat numRows = unat (1 :: size_t)" by simp
  then show ?thesis by (simp only: word_unat_eq_iff)
qed

text \<open>
  C10. For a configuration that passes validation, \<open>cudppPlan\<close> returns the handle of a
  new plan that records the configuration and \<open>numElements\<close>. A segmented-scan,
  radix-sort, reduce or random-number plan records one row and a row pitch of 0, whatever
  \<open>numRows\<close> and \<open>rowPitch\<close> the caller gave; a scan or compact plan records the
  caller's \<open>numRows\<close> and \<open>rowPitch\<close>. (A validated compact request has at most one
  row; with no row the constructor's assertion fails. A radix-sort request divides by
  twice the sort CTA size.)
\<close>

theorem createPlan_recorded_rows_and_pitch:
  assumes "validateOptions M config numElements numRows rowPitch = CUDPP_SUCCESS"
    and "algorithm config \<in> {CUDPP_SCAN, CUDPP_COMPACT, CUDPP_SEGMENTED_SCAN,
                              CUDPP_SORT_RADIX, CUDPP_REDUCE, CUDPP_RAND_MD5}"
    and "algorithm config = CUDPP_COMPACT \<longrightarrow> numRows \<noteq> 0"
    and "algorithm config = CUDPP_SORT_RADIX \<longrightarrow> SORT_CTA_SIZE M * 2 \<noteq> 0"
  shows "\<exists>s' obj.
           cudppPlan M cudppHandle planHandle config numElements numRows rowPitch s
             = Inr (CUDPP_SUCCESS, Handle (next_handle s), s')
         \<and> plans s' (next_handle s) = Some obj
         \<and> m_config obj = config
         \<and> m_numElements obj = numElements
         \<and> m_numRows obj
             = (if algorithm config \<in> {CUDPP_SCAN, CUDPP_COMPACT} then numRows else 1)
         \<and> m_rowPitch obj
             = (if algorithm config \<in> {CUDPP_SCAN, CUDPP_COMPACT} then rowPitch else 0)"
proof -
  consider "algorithm config = CUDPP_SCAN" | "algorithm config = CUDPP_COMPACT"
    | "algorithm config = CUDPP_SEGMENTED_SCAN" | "algorithm config = CUDPP_SORT_RADIX"
    | "algorithm config = CUDPP_REDUCE" | "algorithm config = CUDPP_RAND_MD5"
    using assms(2) by auto
  then show ?thesis
  proof cases
    case 1
    then show ?thesis
      using assms(1)
      by (simp add: cudppPlan_def Let_def new_CUDPPScanPlan_result return_plan_def
          getHandle_def getManagerFromHandle_def)
  next
    case 2
    then have "numRows = 1"
      using assms(1,3) validated_compact_rows by blast
    then show ?thesis
      using 2 assms(1)
      by (simp add: cudppPlan_def Let_def new_CUDPPCompactPlan_result return_plan_def
          getHandle_def getManagerFromHandle_def)
  next
    case 3
    then show ?thesis
      using assms(1)
      by (simp add: cudppPlan_def Let_def new_CUDPPSegmentedScanPlan_result return_plan_def
          getHandle_def getManagerFromHandle_def)
  next
    case 4
    then have nz: "SORT_CTA_SIZE M * 2 \<noteq> 0" using assms(4) by simp
    show ?thesis
      using 4 assms(1)
      by (simp add: cudppPlan_def Let_def new_CUDPPRadixSortPlan_result [OF nz] return_plan_def
          getHandle_def getManagerFromHandle_def)
  next
    case 5
    then show ?thesis
      using assms(1)
      by (simp add: cudppPlan_def Let_def new_CUDPPReducePlan_result return_plan_def
          getHandle_def getManagerFromHandle_def)
  next
    case 6
    then show ?thesis
      using assms(1)
      by (simp add: cudppPlan_def Let_def new_CUDPPRandPlan_result return_plan_def
          getHandle_def getManagerFromHandle_def)
  qed
qed

theorem createPlan_recorded_rows_and_pitch_witness:
  "(\<exists>s' obj.
      cudppPlan example_macros (Handle 0) CUDPP_INVALID_HANDLE
        \<lparr>algorithm = CUDPP_SEGMENTED_SCAN, op = CUDPP_ADD, datatype_t = CUDPP_FLOAT,
         options = 9\<rparr> 100 5 128 init_state = Inr (CUDPP_SUCCESS, Handle 0, s')
    \<and> plans s' 0 = Some obj \<and> m_numRows obj = 1 \<and> m_rowPitch obj = 0)
 \<and> (\<exists>s' obj.
      cudppPlan example_macros (Handle 0) CUDPP_INVALID_HANDLE
        \<lparr>algorithm = CUDPP_SORT_RADIX, op = CUDPP_ADD, datatype_t = CUDPP_UINT,
         options = 32\<rparr> 100 5 128 init_state = Inr (CUDPP_SUCCESS, Handle 0, s')
    \<and> plans s' 0 = Some obj \<and> m_numRows obj = 1 \<and> m_rowPitch obj = 0)
 \<and> (\<exists>s' obj.
      cudppPlan example_macros (Handle 0) CUDPP_INVALID_HANDLE
        \<lparr>algorithm = CUDPP_SCAN, op = CUDPP_ADD, datatype_t = CUDPP_FLOAT,
         options = 9\<rparr> 100 5 128 init_state = Inr (CUDPP_SUCCESS, Handle 0, s')
    \<and> plans s' 0 = Some obj \<and> m_numRows obj = 5 \<and> m_rowPitch obj = 128)
 \<and> (\<exists>s' obj.
      cudppPlan example_macros (Handle 0) CUDPP_INVALID_HANDLE
        \<lparr>algorithm = CUDPP_COMPACT, op = CUDPP_ADD, datatype_t = CUDPP_FLOAT,
         options = 1\<rparr> 100 1 128 init_state = Inr (CUDPP_SUCCESS, Handle 0, s')
    \<and> plans s' 0 = Some obj \<and> m_numRows obj = 1 \<and> m_rowPitch obj = 128)"
  using createPlan_recorded_rows_and_pitch
          [of example_macros
              "\<lparr>algorithm = CUDPP_SEGMENTED_SCAN, op = CUDPP_ADD, datatype_t = CUDPP_FLOAT,
                 options = 9\<rparr>" 100 5 128 "Handle 0" CUDPP_INVALID_HANDLE init_state]
        createPlan_recorded_rows_and_pitch
          [of example_macros
              "\<lparr>algorithm = CUDPP_SORT_RADIX, op = CUDPP_ADD, datatype_t = CUDPP_UINT,
                 options = 32\<rparr>" 100 5 128 "Handle 0" CUDPP_INVALID_HANDLE init_state]
        createPlan_recorded_rows_and_pitch
          [of example_macros
              "\<lparr>algorithm = CUDPP_SCAN, op = CUDPP_ADD, datatype_t = CUDPP_FLOAT,
                 options = 9\<rparr>" 100 5 128 "Handle 0" CUDPP_INVALID_HANDLE init_state]
        createPlan_recorded_rows_and_pitch
          [of example_macros
              "\<lparr>algorithm = CUDPP_COMPACT, op = CUDPP_ADD, datatype_t = CUDPP_FLOAT,
                 options = 1\<rparr>" 100 1 128 "Handle 0" CUDPP_INVALID_HANDLE init_state]
  by (auto simp: example_macros_def init_state_def validateOptions_def)

subsection \<open>The table of final indices of a sparse-matrix plan\<close>

lemma unat_ucast_uint: "unat (ucast (i::uint) :: size_t) = unat i"
proof -
  have "unat i < 2 ^ 32" using unsigned_less [of i] by simp
  then have "unat i < 2 ^ 64" by simp
  then show ?thesis by (simp add: unsigned_ucast_eq take_bit_nat_eq_self)
qed

lemma ucast_less_iff: "(ucast (i::uint) :: size_t) < n \<longleftrightarrow> unat i < unat n"
  by (simp add: word_less_nat_alt unat_ucast_uint)

lemma rowFinalIndex_loop_total:
  assumes "unat numRows < 2 ^ 32" and "unat numRows \<le> length rowIndex"
    and "length tbl = unat numRows" and "unat i \<le> unat numRows"
  shows "rowFinalIndex_loop rowIndex numRows nnz i tbl =
           Some (Inr (take (unat i) tbl @
                      map (\<lambda>k. if k < unat numRows - 1 then rowIndex ! (k + 1) else ucast nnz)
                        [unat i ..< unat numRows]))"
  using assms
proof (induction "unat numRows - unat i" arbitrary: i tbl)
  case 0
  then have "unat i = unat numRows" by simp
  then show ?case
    using 0 by (subst rowFinalIndex_loop.simps) (simp add: ucast_less_iff)
next
  case (Suc d)
  let ?f = "\<lambda>k. if k < unat numRows - 1 then rowIndex ! (k + 1) else ucast nnz"
  from Suc have lt: "unat i < unat numRows" by simp
  then have nz: "numRows \<noteq> 0" by (auto simp: unat_eq_zero)
  have i1: "unat (i + 1) = Suc (unat i)"
    using lt Suc.prems(1) by (simp add: unat_add_lem [THEN iffD1])
  have m1: "unat (numRows - 1) = unat numRows - 1"
    using nz by (simp add: unat_minus_one)
  have IH: "rowFinalIndex_loop rowIndex numRows nnz (i + 1) (tbl[unat i := v]) =
           Some (Inr (take (unat (i + 1)) (tbl[unat i := v]) @
                      map ?f [unat (i + 1) ..< unat numRows]))" for v
    using Suc.hyps(2) Suc.prems lt i1
    by (intro Suc.hyps(1)) simp_all
  have tk: "take (Suc (unat i)) (tbl[unat i := v]) = take (unat i) tbl @ [v]" for v
    using lt Suc.prems(3) by (simp add: take_Suc_conv_app_nth)
  have up: "[unat i ..< unat numRows] = unat i # [Suc (unat i) ..< unat numRows]"
    using lt by (simp add: upt_conv_Cons)
  show ?case
  proof (cases "unat i < unat numRows - 1")
    case True
    then have "Suc (unat i) < length rowIndex" using Suc.prems(2) by simp
    then show ?thesis
      using True lt Suc.prems(3) IH [of "rowIndex ! Suc (unat i)"]
      by (subst rowFinalIndex_loop.simps)
         (simp add: ucast_less_iff m1 i1 tk up)
  next
    case False
    then show ?thesis
      using lt Suc.prems(3) IH [of "ucast nnz"]
      by (subst rowFinalIndex_loop.simps)
         (simp add: ucast_less_iff m1 i1 tk up)
  qed
qed

lemma new_CUDPPSparseMatrixVectorMultiplyPlan_result:
  assumes "unat numRows < 2 ^ 32" and "unat numRows \<le> length rowIndex"
  shows "new_CUDPPSparseMatrixVectorMultiplyPlan M mgr config numNonZeroElements A rowIndex
           index numRows s =
     Inr (Some (next_handle s),
      s\<lparr>plans := (plans s)
           (Suc (next_handle s) \<mapsto>
              \<lparr>m_config =
                 \<lparr>algorithm = CUDPP_SEGMENTED_SCAN, op = CUDPP_ADD,
                  datatype_t = datatype_t config,
                  options = CUDPP_OPTION_FORWARD M OR CUDPP_OPTION_INCLUSIVE M\<rparr>,
               m_numElements = numNonZeroElements, m_numRows = 1, m_rowPitch = 0,
               m_planManager = mgr, derived = CUDPPSegmentedScanPlan\<rparr>,
            next_handle s \<mapsto>
              \<lparr>m_config = config, m_numElements = numNonZeroElements, m_numRows = 1,
               m_rowPitch = 0, m_planManager = mgr,
               derived = CUDPPSparseMatrixVectorMultiplyPlan (Some (Suc (next_handle s)))
                 (map (\<lambda>k. if k < unat numRows - 1 then rowIndex ! (k + 1)
                            else ucast numNonZeroElements) [0 ..< unat numRows])
                 numRows numNonZeroElements\<rparr>),
        next_handle := Suc (Suc (next_handle s)),
        trace := trace s @
          [New (next_handle s), New (Suc (next_handle s)),
           AllocStorage CUDPP_SEGMENTED_SCAN (Suc (next_handle s)),
           NewArray (next_handle s),
           AllocStorage CUDPP_SPMVMULT (next_handle s)]\<rparr>)"
proof -
  have "rowFinalIndex_loop rowIndex numRows numNonZeroElements 0 (replicate (unat numRows) 0) =
          Some (Inr (map (\<lambda>k. if k < unat numRows - 1 then rowIndex ! (k + 1)
                                else ucast numNonZeroElements) [0 ..< unat numRows]))"
    using rowFinalIndex_loop_total [OF assms, of "replicate (unat numRows) 0" 0 numNonZeroElements]
    by simp
  then show ?thesis
    by (simp add: new_CUDPPSparseMatrixVectorMultiplyPlan_def new_CUDPPSegmentedScanPlan_result
        operator_new_def allocStorage_def construct_def CUDPPPlan_ctor_def Let_def)
qed

text \<open>
  C7 (amended). For \<open>0 < numRows < 2 ^ 32\<close> and a row-index array of at least \<open>numRows\<close>
  entries, the sparse-matrix constructor returns a plan whose table of final indices has
  exactly \<open>numRows\<close> entries; entry \<open>i\<close> is \<open>rowIndex[i+1]\<close> for every
  \<open>i < numRows - 1\<close>, and entry \<open>numRows - 1\<close> is \<open>numNonZeroElements\<close> converted to
  \<open>unsigned int\<close>, that is \<open>numNonZeroElements\<close> modulo \<open>2 ^ 32\<close>. For three rows,
  \<open>rowIndex = [0, 4, 9]\<close> and 12 nonzero elements the table is \<open>[4, 9, 12]\<close>.
\<close>

theorem spmv_rowFinalIndex_table:
  assumes "0 < numRows" and "unat numRows < 2 ^ 32" and "unat numRows \<le> length rowIndex"
  shows "\<exists>s' obj.
           new_CUDPPSparseMatrixVectorMultiplyPlan M mgr config numNonZeroElements A rowIndex
             index numRows s = Inr (Some (next_handle s), s')
         \<and> plans s' (next_handle s) = Some obj
         \<and> length (m_rowFinalIndex (derived obj)) = unat numRows
         \<and> (\<forall>i < unat numRows - 1. m_rowFinalIndex (derived obj) ! i = rowIndex ! (i + 1))
         \<and> m_rowFinalIndex (derived obj) ! (unat numRows - 1)
             = (ucast numNonZeroElements :: uint)
         \<and> unat (m_rowFinalIndex (derived obj) ! (unat numRows - 1))
             = unat numNonZeroElements mod 2 ^ 32"
proof -
  have pos: "0 < unat numRows" using assms(1) by (simp add: word_less_nat_alt)
  have "unat (ucast numNonZeroElements :: uint) = unat numNonZeroElements mod 2 ^ 32"
    by (simp add: unsigned_ucast_eq take_bit_eq_mod)
  then show ?thesis
    using pos by (simp add: new_CUDPPSparseMatrixVectorMultiplyPlan_result [OF assms(2,3)])
qed

theorem spmv_rowFinalIndex_table_witness:
  "\<exists>s' obj.
     new_CUDPPSparseMatrixVectorMultiplyPlan example_macros (Handle 0)
       \<lparr>algorithm = CUDPP_SPMVMULT, op = CUDPP_ADD, datatype_t = CUDPP_FLOAT, options = 0\<rparr>
       12 [] [0, 4, 9] [] 3 init_state = Inr (Some 0, s')
   \<and> plans s' 0 = Some obj
   \<and> m_rowFinalIndex (derived obj) = [4, 9, 12]"
proof -
  from spmv_rowFinalIndex_table
         [of 3 "[0, 4, 9]" example_macros "Handle 0"
             "\<lparr>algorithm = CUDPP_SPMVMULT, op = CUDPP_ADD, datatype_t = CUDPP_FLOAT,
                options = 0\<rparr>" 12 "[]" "[]" init_state]
  obtain s' obj where r:
    "new_CUDPPSparseMatrixVectorMultiplyPlan example_macros (Handle 0)
       \<lparr>algorithm = CUDPP_SPMVMULT, op = CUDPP_ADD, datatype_t = CUDPP_FLOAT, options = 0\<rparr>
       12 [] [0, 4, 9] [] 3 init_state = Inr (Some 0, s')"
    "plans s' 0 = Some obj"
    "length (m_rowFinalIndex (derived obj)) = 3"
    "\<forall>i < 2. m_rowFinalIndex (derived obj) ! i = [0, 4, 9 :: uint] ! (i + 1)"
    "m_rowFinalIndex (derived obj) ! 2 = 12"
    by (auto simp: init_state_def)
  from r(4) have "m_rowFinalIndex (derived obj) ! 0 = 4" "m_rowFinalIndex (derived obj) ! 1 = 9"
    by simp_all
  with r(3,5) have "m_rowFinalIndex (derived obj) = [4, 9, 12]"
    by (auto simp: list_eq_iff_nth_eq less_Suc_eq numeral_3_eq_3 numeral_2_eq_2)
  with r(1,2) show ?thesis by blast
qed

text \<open>
  The last entry is not \<open>numNonZeroElements\<close> itself when that does not fit 32 bits: for
  one row and \<open>2 ^ 32\<close> nonzero elements the table is \<open>[0]\<close>.
\<close>

theorem spmv_last_entry_counterexample:
  "new_CUDPPSparseMatrixVectorMultiplyPlan example_macros (Handle 0)
     \<lparr>algorithm = CUDPP_SPMVMULT, op = CUDPP_ADD, datatype_t = CUDPP_FLOAT, options = 0\<rparr>
     4294967296 [] [0] [] 1 init_state =
   Inr (Some 0,
     \<lparr>plans = [1 \<mapsto> \<lparr>m_config = \<lparr>algorithm = CUDPP_SEGMENTED_SCAN, op = CUDPP_ADD,
                                   datatype_t = CUDPP_FLOAT, options = 9\<rparr>,
                       m_numElements = 4294967296, m_numRows = 1, m_rowPitch = 0,
                       m_planManager = Handle 0, derived = CUDPPSegmentedScanPlan\<rparr>,
               0 \<mapsto> \<lparr>m_config = \<lparr>algorithm = CUDPP_SPMVMULT, op = CUDPP_ADD,
                                   datatype_t = CUDPP_FLOAT, options = 0\<rparr>,
                       m_numElements = 4294967296, m_numRows = 1, m_rowPitch = 0,
                       m_planManager = Handle 0,
                       derived = CUDPPSparseMatrixVectorMultiplyPlan (Some 1) [0] 1
                                   4294967296\<rparr>],
      next_handle = 2,
      trace = [New 0, New 1, AllocStorage CUDPP_SEGMENTED_SCAN 1, NewArray 0,
               AllocStorage CUDPP_SPMVMULT 0]\<rparr>)
 \<and> unat (0 :: uint) \<noteq> unat (4294967296 :: size_t)"
proof -
  have wrap: "(4294967296 :: uint) = 0" by simp
  show ?thesis
    by (simp add: wrap new_CUDPPSparseMatrixVectorMultiplyPlan_def
        new_CUDPPSegmentedScanPlan_result operator_new_def allocStorage_def construct_def
        CUDPPPlan_ctor_def Let_def rowFinalIndex_loop.simps example_macros_def init_state_def)
qed

subsection \<open>The sample states are reached\<close>

lemma scan_created_reached:
  "cudppPlan example_macros (Handle 0) CUDPP_INVALID_HANDLE
     \<lparr>algorithm = CUDPP_SCAN, op = CUDPP_ADD, datatype_t = CUDPP_INT, options = 5\<rparr>
     100 1 0 init_state = Inr (CUDPP_SUCCESS, Handle 0, scan_created)"
  by (simp add: cudppPlan_def Let_def validateOptions_def example_macros_def
      new_CUDPPScanPlan_result return_plan_def getHandle_def getManagerFromHandle_def
      init_state_def scan_created_def)

lemma compact_created_reached:
  "cudppPlan example_macros (Handle 0) CUDPP_INVALID_HANDLE
     \<lparr>algorithm = CUDPP_COMPACT, op = CUDPP_ADD, datatype_t = CUDPP_INT, options = 1\<rparr>
     100 1 0 init_state = Inr (CUDPP_SUCCESS, Handle 0, compact_created)"
  by (simp add: cudppPlan_def Let_def validateOptions_def example_macros_def
      new_CUDPPCompactPlan_result return_plan_def getHandle_def getManagerFromHandle_def
      init_state_def compact_created_def)

lemma spmv_created_reached:
  "cudppSparseMatrix example_macros (Handle 0) CUDPP_INVALID_HANDLE
     \<lparr>algorithm = CUDPP_SPMVMULT, op = CUDPP_ADD, datatype_t = CUDPP_FLOAT, options = 0\<rparr>
     12 3 [] [0, 4, 9] [] init_state = Inr (CUDPP_SUCCESS, Handle 0, spmv_created)"
proof -
  have three: "replicate 3 (0 :: uint) = [0, 0, 0]" by (simp add: numeral_3_eq_3)
  show ?thesis
    by (simp add: three cudppSparseMatrix_def Let_def example_macros_def
        new_CUDPPSparseMatrixVectorMultiplyPlan_def new_CUDPPSegmentedScanPlan_result
        operator_new_def allocStorage_def construct_def CUDPPPlan_ctor_def
        rowFinalIndex_loop.simps getHandle_def getManagerFromHandle_def
        init_state_def spmv_created_def)
qed

lemma radixsort_created_reached:
  "cudppPlan example_macros (Handle 0) CUDPP_INVALID_HANDLE
     \<lparr>algorithm = CUDPP_SORT_RADIX, op = CUDPP_ADD, datatype_t = CUDPP_UINT, options = 32\<rparr>
     1000 1 0 init_state = Inr (CUDPP_SUCCESS, Handle 0, radixsort_created)"
  by (simp add: cudppPlan_def Let_def validateOptions_def example_macros_def
      new_CUDPPRadixSortPlan_result numBlocks2_def return_plan_def getHandle_def
      getManagerFromHandle_def init_state_def radixsort_created_def)

subsection \<open>What each destructor does\<close>

lemma delete_CUDPPScanPlan_result:
  assumes "plans s a = Some obj" and "derived obj = CUDPPScanPlan"
  shows "delete_CUDPPScanPlan (Some a) s =
           Inr (s\<lparr>plans := (plans s)(a := None),
                  trace := trace s @ [FreeStorage CUDPP_SCAN a, Delete a]\<rparr>)"
  using assms by (simp add: delete_CUDPPScanPlan_def operator_delete_def freeStorage_def)

lemma delete_CUDPPSegmentedScanPlan_result:
  assumes "plans s a = Some obj" and "derived obj = CUDPPSegmentedScanPlan"
  shows "delete_CUDPPSegmentedScanPlan (Some a) s =
           Inr (s\<lparr>plans := (plans s)(a := None),
                  trace := trace s @ [FreeStorage CUDPP_SEGMENTED_SCAN a, Delete a]\<rparr>)"
  using assms
  by (simp add: delete_CUDPPSegmentedScanPlan_def operator_delete_def freeStorage_def)

lemma delete_CUDPPReducePlan_result:
  assumes "plans s a = Some obj" and "derived obj = CUDPPReducePlan tpb mb"
  shows "delete_CUDPPReducePlan (Some a) s =
           Inr (s\<lparr>plans := (plans s)(a := None),
                  trace := trace s @ [FreeStorage CUDPP_REDUCE a, Delete a]\<rparr>)"
  using assms by (simp add: delete_CUDPPReducePlan_def operator_delete_def freeStorage_def)

lemma delete_CUDPPRandPlan_result:
  assumes "plans s a = Some obj" and "derived obj = CUDPPRandPlan seed"
  shows "delete_CUDPPRandPlan (Some a) s =
           Inr (s\<lparr>plans := (plans s)(a := None), trace := trace s @ [Delete a]\<rparr>)"
  using assms by (simp add: delete_CUDPPRandPlan_def operator_delete_def)

lemma delete_CUDPPCompactPlan_result:
  assumes "plans s a = Some obj" and "derived obj = CUDPPCompactPlan (Some b)"
    and "plans s b = Some nobj" and "derived nobj = CUDPPScanPlan"
  shows "delete_CUDPPCompactPlan (Some a) s =
           Inr (s\<lparr>plans := (plans s)(b := None, a := None),
                  trace := trace s @
                    [FreeStorage CUDPP_SCAN b, Delete b, FreeStorage CUDPP_COMPACT a, Delete a]\<rparr>)"
  using assms
  by (simp add: delete_CUDPPCompactPlan_def delete_CUDPPScanPlan_result operator_delete_def
      freeStorage_def)

lemma delete_CUDPPRadixSortPlan_result:
  assumes "plans s a = Some obj" and "derived obj = CUDPPRadixSortPlan (Some b) k"
    and "plans s b = Some nobj" and "derived nobj = CUDPPScanPlan"
  shows "delete_CUDPPRadixSortPlan (Some a) s =
           Inr (s\<lparr>plans := (plans s)(b := None, a := None),
                  trace := trace s @
                    [FreeStorage CUDPP_SCAN b, Delete b, FreeStorage CUDPP_SORT_RADIX a,
                     Delete a]\<rparr>)"
  using assms
  by (simp add: delete_CUDPPRadixSortPlan_def delete_CUDPPScanPlan_result operator_delete_def
      freeStorage_def)

lemma delete_CUDPPSparseMatrixVectorMultiplyPlan_result:
  assumes "plans s a = Some obj"
    and "derived obj = CUDPPSparseMatrixVectorMultiplyPlan (Some b) tbl nr nnz"
    and "plans s b = Some nobj" and "derived nobj = CUDPPSegmentedScanPlan"
  shows "delete_CUDPPSparseMatrixVectorMultiplyPlan (Some a) s =
           Inr (s\<lparr>plans := (plans s)(b := None, a := None),
                  trace := trace s @
                    [FreeStorage CUDPP_SPMVMULT a, FreeStorage CUDPP_SEGMENTED_SCAN b, Delete b,
                     DeleteArray a, Delete a]\<rparr>)"
proof -
  have "delete_CUDPPSegmentedScanPlan (Some b) (freeStorage CUDPP_SPMVMULT a s) =
          Inr (s\<lparr>plans := (plans s)(b := None),
                 trace := trace s @
                   [FreeStorage CUDPP_SPMVMULT a, FreeStorage CUDPP_SEGMENTED_SCAN b, Delete b]\<rparr>)"
    using assms(3,4)
    by (simp add: delete_CUDPPSegmentedScanPlan_def operator_delete_def freeStorage_def)
  then show ?thesis
    using assms(1,2)
    by (simp add: delete_CUDPPSparseMatrixVectorMultiplyPlan_def operator_delete_def)
qed

subsection \<open>The order of release of a plan that owns a plan\<close>

text \<open>
  C2 (amended). Deleting a sparse-matrix plan releases its own storage first, then
  destroys the segmented-scan plan it owns, then gives back the table of final indices and
  the plan itself. Deleting a compact or a radix-sort plan destroys the scan plan it owns
  first, then releases its own storage, then gives back the plan itself. In each case the
  owned plan is gone before the owner is.
\<close>

theorem nested_plan_release_order:
  assumes "plans s a = Some obj" and "plans s b = Some nobj"
  shows "(derived obj = CUDPPSparseMatrixVectorMultiplyPlan (Some b) tbl nr nnz
            \<and> derived nobj = CUDPPSegmentedScanPlan \<longrightarrow>
          delete_CUDPPSparseMatrixVectorMultiplyPlan (Some a) s =
            Inr (s\<lparr>plans := (plans s)(b := None, a := None),
                   trace := trace s @
                     [FreeStorage CUDPP_SPMVMULT a, FreeStorage CUDPP_SEGMENTED_SCAN b,
                      Delete b, DeleteArray a, Delete a]\<rparr>))
       \<and> (derived obj = CUDPPCompactPlan (Some b) \<and> derived nobj = CUDPPScanPlan \<longrightarrow>
          delete_CUDPPCompactPlan (Some a) s =
            Inr (s\<lparr>plans := (plans s)(b := None, a := None),
                   trace := trace s @
                     [FreeStorage CUDPP_SCAN b, Delete b, FreeStorage CUDPP_COMPACT a,
                      Delete a]\<rparr>))
       \<and> (derived obj = CUDPPRadixSortPlan (Some b) k \<and> derived nobj = CUDPPScanPlan \<longrightarrow>
          delete_CUDPPRadixSortPlan (Some a) s =
            Inr (s\<lparr>plans := (plans s)(b := None, a := None),
                   trace := trace s @
                     [FreeStorage CUDPP_SCAN b, Delete b, FreeStorage CUDPP_SORT_RADIX a,
                      Delete a]\<rparr>))"
  using assms delete_CUDPPSparseMatrixVectorMultiplyPlan_result [of s a obj b tbl nr nnz nobj]
    delete_CUDPPCompactPlan_result [of s a obj b nobj]
    delete_CUDPPRadixSortPlan_result [of s a obj b k nobj]
  by blast

theorem nested_plan_release_order_witness:
  "delete_CUDPPSparseMatrixVectorMultiplyPlan (Some 0) spmv_created =
     Inr \<lparr>plans = Map.empty, next_handle = 2,
          trace = [New 0, New 1, AllocStorage CUDPP_SEGMENTED_SCAN 1, NewArray 0,
                   AllocStorage CUDPP_SPMVMULT 0,
                   FreeStorage CUDPP_SPMVMULT 0, FreeStorage CUDPP_SEGMENTED_SCAN 1, Delete 1,
                   DeleteArray 0, Delete 0]\<rparr>
 \<and> delete_CUDPPCompactPlan (Some 0) compact_created =
     Inr \<lparr>plans = Map.empty, next_handle = 2,
          trace = [New 0, New 1, AllocStorage CUDPP_SCAN 1, AllocStorage CUDPP_COMPACT 0,
                   FreeStorage CUDPP_SCAN 1, Delete 1, FreeStorage CUDPP_COMPACT 0, Delete 0]\<rparr>
 \<and> delete_CUDPPRadixSortPlan (Some 0) radixsort_created =
     Inr \<lparr>plans = Map.empty, next_handle = 2,
          trace = [New 0, New 1, AllocStorage CUDPP_SCAN 1, AllocStorage CUDPP_SORT_RADIX 0,
                   FreeStorage CUDPP_SCAN 1, Delete 1, FreeStorage CUDPP_SORT_RADIX 0,
                   Delete 0]\<rparr>"
  using nested_plan_release_order
          [of spmv_created 0 "the (plans spmv_created 0)" 1 "the (plans spmv_created 1)"
              "[4, 9, 12]" 3 12 True]
        nested_plan_release_order
          [of compact_created 0 "the (plans compact_created 0)" 1
              "the (plans compact_created 1)" "[]" 0 0 True]
        nested_plan_release_order
          [of radixsort_created 0 "the (plans radixsort_created 0)" 1
              "the (plans radixsort_created 1)" "[]" 0 0 True]
  by (simp add: spmv_created_def compact_created_def radixsort_created_def)

text \<open>
  Destroying a compact plan created by \<open>cudppPlan\<close>: the storage of the compact plan is
  released after the scan plan it owns has been destroyed, not before.
\<close>

theorem compact_release_order_counterexample:
  "cudppPlan example_macros (Handle 0) CUDPP_INVALID_HANDLE
     \<lparr>algorithm = CUDPP_COMPACT, op = CUDPP_ADD, datatype_t = CUDPP_INT, options = 1\<rparr>
     100 1 0 init_state = Inr (CUDPP_SUCCESS, Handle 0, compact_created)
 \<and> cudppDestroyPlan (Handle 0) compact_created =
     Inr (CUDPP_SUCCESS,
          \<lparr>plans = Map.empty, next_handle = 2,
           trace = [New 0, New 1, AllocStorage CUDPP_SCAN 1, AllocStorage CUDPP_COMPACT 0,
                    FreeStorage CUDPP_SCAN 1, Delete 1, FreeStorage CUDPP_COMPACT 0,
                    Delete 0]\<rparr>)
 \<and> \<not> precedes (FreeStorage CUDPP_COMPACT 0) (Delete 1)
       [New 0, New 1, AllocStorage CUDPP_SCAN 1, AllocStorage CUDPP_COMPACT 0,
        FreeStorage CUDPP_SCAN 1, Delete 1, FreeStorage CUDPP_COMPACT 0, Delete 0]"
  using compact_created_reached
  by (simp add: cudppDestroyPlan_def getPlanPtrFromHandle_def deref_def compact_created_def
      delete_CUDPPCompactPlan_def delete_CUDPPScanPlan_def operator_delete_def freeStorage_def)

subsection \<open>Destroying with a handle that names no plan\<close>

text \<open>
  C3 (amended). \<open>cudppDestroyPlan\<close> returns the invalid-handle error exactly for the
  invalid sentinel, and then leaves the state as it was. No other handle gives that
  result: the function compares the handle with the sentinel only.
\<close>

theorem destroyPlan_invalid_handle_only_for_sentinel:
  "cudppDestroyPlan h s = Inr (CUDPP_ERROR_INVALID_HANDLE, s')
     \<longleftrightarrow> h = CUDPP_INVALID_HANDLE \<and> s' = s"
proof (cases "h = CUDPP_INVALID_HANDLE")
  case True
  then show ?thesis by (auto simp: cudppDestroyPlan_def)
next
  case False
  then have "cudppDestroyPlan h s \<noteq> Inr (CUDPP_ERROR_INVALID_HANDLE, s')"
    by (auto simp: cudppDestroyPlan_def Let_def
        split: sum.splits CUDPPAlgorithm.splits)
  with False show ?thesis by simp
qed

theorem destroyPlan_invalid_handle_only_for_sentinel_witness:
  "cudppDestroyPlan CUDPP_INVALID_HANDLE scan_created
     = Inr (CUDPP_ERROR_INVALID_HANDLE, scan_created)"
  using destroyPlan_invalid_handle_only_for_sentinel
          [of CUDPP_INVALID_HANDLE scan_created scan_created]
  by simp

text \<open>
  A scan plan is created and destroyed; destroying it a second time, or destroying with a
  handle that was never given out, does not return the invalid-handle error: the plan
  pointer resolves to nothing and is read all the same.
\<close>

theorem destroyPlan_twice_counterexample:
  "cudppPlan example_macros (Handle 0) CUDPP_INVALID_HANDLE
     \<lparr>algorithm = CUDPP_SCAN, op = CUDPP_ADD, datatype_t = CUDPP_INT, options = 5\<rparr>
     100 1 0 init_state = Inr (CUDPP_SUCCESS, Handle 0, scan_created)
 \<and> cudppDestroyPlan (Handle 0) scan_created = Inr (CUDPP_SUCCESS, scan_destroyed)
 \<and> cudppDestroyPlan (Handle 0) scan_destroyed = Inl NullDereference
 \<and> cudppDestroyPlan (Handle 1) scan_created = Inl NullDereference"
  using scan_created_reached
  by (simp add: cudppDestroyPlan_def getPlanPtrFromHandle_def deref_def scan_created_def
      delete_CUDPPScanPlan_def operator_delete_def freeStorage_def scan_destroyed_def)

subsection \<open>Dispatch of cudppDestroyPlan\<close>

lemma points_toD:
  assumes "points_to s p c"
  shows "\<exists>b nobj. p = Some b \<and> plans s b = Some nobj \<and> derived nobj = c"
  using assms by (auto simp: points_to_def split: option.splits)

lemma resolve_live:
  assumes "plans s a = Some obj"
  shows "getPlanPtrFromHandle s (Handle a) = Some a"
    and "deref s (Some a) = Inr obj"
  using assms by (simp_all add: getPlanPtrFromHandle_def deref_def)

lemma cudppPlan_class_matches_tag:
  assumes "cudppPlan M cudppHandle planHandle config numElements numRows rowPitch s
             = Inr (CUDPP_SUCCESS, Handle a, s')"
  shows "\<exists>obj. plans s' a = Some obj \<and> m_config obj = config \<and> class_matches_tag s' obj"
proof (cases "algorithm config")
  case CUDPP_SCAN
  then show ?thesis
    using assms
    by (auto simp: cudppPlan_def Let_def new_CUDPPScanPlan_result return_plan_def
        getHandle_def class_matches_tag_def split: if_splits)
next
  case CUDPP_SEGMENTED_SCAN
  then show ?thesis
    using assms
    by (auto simp: cudppPlan_def Let_def new_CUDPPSegmentedScanPlan_result return_plan_def
        getHandle_def class_matches_tag_def split: if_splits)
next
  case CUDPP_COMPACT
  show ?thesis
  proof (cases "numRows = 1")
    case True
    then show ?thesis
      using assms CUDPP_COMPACT
      by (auto simp: cudppPlan_def Let_def new_CUDPPCompactPlan_result return_plan_def
          getHandle_def class_matches_tag_def points_to_def split: if_splits)
  next
    case False
    then have "new_CUDPPCompactPlan M (getManagerFromHandle cudppHandle) config numElements
                 numRows rowPitch s = Inl AssertionFailure"
      by (simp add: new_CUDPPCompactPlan_def operator_new_def)
    then show ?thesis
      using assms CUDPP_COMPACT by (auto simp: cudppPlan_def Let_def split: if_splits)
  qed
next
  case CUDPP_REDUCE
  then show ?thesis
    using assms
    by (auto simp: cudppPlan_def Let_def new_CUDPPReducePlan_result return_plan_def
        getHandle_def class_matches_tag_def split: if_splits)
next
  case CUDPP_SORT_RADIX
  show ?thesis
  proof (cases "SORT_CTA_SIZE M * 2 = 0")
    case True
    then have "new_CUDPPRadixSortPlan M (getManagerFromHandle cudppHandle) config numElements s
                 = Inl DivisionByZero"
      by (simp add: new_CUDPPRadixSortPlan_def operator_new_def)
    then show ?thesis
      using assms CUDPP_SORT_RADIX by (auto simp: cudppPlan_def Let_def split: if_splits)
  next
    case False
    then show ?thesis
      using assms CUDPP_SORT_RADIX
      by (auto simp: cudppPlan_def Let_def new_CUDPPRadixSortPlan_result return_plan_def
          getHandle_def class_matches_tag_def points_to_def split: if_splits)
  qed
next
  case CUDPP_SPMVMULT
  then show ?thesis
    using assms by (auto simp: cudppPlan_def Let_def split: if_splits)
next
  case CUDPP_RAND_MD5
  then show ?thesis
    using assms
    by (auto simp: cudppPlan_def Let_def new_CUDPPRandPlan_result return_plan_def
        getHandle_def class_matches_tag_def split: if_splits)
next
  case CUDPP_ALGORITHM_INVALID
  then show ?thesis
    using assms by (auto simp: cudppPlan_def Let_def split: if_splits)
qed

text \<open>
  C4 (amended). Take a registered plan that is of the class of its recorded tag and,
  where that class owns a plan, whose owned plan is still registered and of the owned
  class. \<open>cudppDestroyPlan\<close> reads the tag from the plan. For the tags scan, segmented
  scan, compact, radix sort, reduce and random it returns success; the storage routine of
  that algorithm is called exactly once for the plan (the random-number plan has none), no
  other algorithm's is, and the plan is given back last, once. For the tag of the sparse
  matrix-vector multiply it returns the illegal-configuration error and leaves the state
  as it was; such a plan is released by \<open>cudppDestroySparseMatrix\<close>, which returns
  success, calls the storage routine of the sparse matrix-vector multiply exactly once for
  the plan and no other algorithm's, and gives the plan back last, once.
\<close>

theorem destroyPlan_dispatch_on_recorded_tag:
  assumes "plans s a = Some obj" and "class_matches_tag s obj"
  shows "(algorithm (m_config obj) \<in> {CUDPP_SCAN, CUDPP_SEGMENTED_SCAN, CUDPP_COMPACT,
                                        CUDPP_SORT_RADIX, CUDPP_REDUCE, CUDPP_RAND_MD5} \<longrightarrow>
           (\<exists>s' evs.
              cudppDestroyPlan (Handle a) s = Inr (CUDPP_SUCCESS, s')
            \<and> plans s' a = None
            \<and> trace s' = trace s @ evs @ [Delete a]
            \<and> Delete a \<notin> set evs
            \<and> count_list evs (FreeStorage (algorithm (m_config obj)) a)
                = (if algorithm (m_config obj) = CUDPP_RAND_MD5 then 0 else 1)
            \<and> (\<forall>alg. alg \<noteq> algorithm (m_config obj) \<longrightarrow> FreeStorage alg a \<notin> set evs)))
       \<and> (algorithm (m_config obj) = CUDPP_SPMVMULT \<longrightarrow>
            cudppDestroyPlan (Handle a) s = Inr (CUDPP_ERROR_ILLEGAL_CONFIGURATION, s)
          \<and> (\<exists>s' evs.
                 cudppDestroySparseMatrix (Handle a) s = Inr (CUDPP_SUCCESS, s')
               \<and> plans s' a = None
               \<and> trace s' = trace s @ evs @ [Delete a]
               \<and> Delete a \<notin> set evs
               \<and> count_list evs (FreeStorage CUDPP_SPMVMULT a) = 1
               \<and> (\<forall>alg. alg \<noteq> CUDPP_SPMVMULT \<longrightarrow> FreeStorage alg a \<notin> set evs)))"
proof (cases "derived obj")
  case CUDPPScanPlan
  then have tag: "algorithm (m_config obj) = CUDPP_SCAN"
    using assms(2) by (simp add: class_matches_tag_def)
  show ?thesis
    using tag delete_CUDPPScanPlan_result [OF assms(1) CUDPPScanPlan]
    by (simp add: cudppDestroyPlan_def resolve_live [OF assms(1)])
next
  case CUDPPSegmentedScanPlan
  then have tag: "algorithm (m_config obj) = CUDPP_SEGMENTED_SCAN"
    using assms(2) by (simp add: class_matches_tag_def)
  show ?thesis
    using tag delete_CUDPPSegmentedScanPlan_result [OF assms(1) CUDPPSegmentedScanPlan]
    by (simp add: cudppDestroyPlan_def resolve_live [OF assms(1)])
next
  case (CUDPPCompactPlan p)
  then have tag: "algorithm (m_config obj) = CUDPP_COMPACT"
    and "points_to s p CUDPPScanPlan"
    using assms(2) by (simp_all add: class_matches_tag_def)
  then obtain b nobj where n: "p = Some b" "plans s b = Some nobj" "derived nobj = CUDPPScanPlan"
    using points_toD by blast
  have ne: "b \<noteq> a" using n assms(1) CUDPPCompactPlan by auto
  have d: "derived obj = CUDPPCompactPlan (Some b)" using CUDPPCompactPlan n(1) by simp
  have "cudppDestroyPlan (Handle a) s =
          Inr (CUDPP_SUCCESS,
               s\<lparr>plans := (plans s)(b := None, a := None),
                 trace := trace s @
                   [FreeStorage CUDPP_SCAN b, Delete b, FreeStorage CUDPP_COMPACT a] @ [Delete a]\<rparr>)"
    using tag delete_CUDPPCompactPlan_result [OF assms(1) d n(2,3)]
    by (simp add: cudppDestroyPlan_def resolve_live [OF assms(1)])
  then show ?thesis
    using tag ne
    by (intro conjI impI exI [of _ "s\<lparr>plans := (plans s)(b := None, a := None),
                 trace := trace s @
                   [FreeStorage CUDPP_SCAN b, Delete b, FreeStorage CUDPP_COMPACT a] @ [Delete a]\<rparr>"]
          exI [of _ "[FreeStorage CUDPP_SCAN b, Delete b, FreeStorage CUDPP_COMPACT a]"])
       auto
next
  case (CUDPPReducePlan tpb mb)
  then have tag: "algorithm (m_config obj) = CUDPP_REDUCE"
    using assms(2) by (simp add: class_matches_tag_def)
  show ?thesis
    using tag delete_CUDPPReducePlan_result [OF assms(1) CUDPPReducePlan]
    by (simp add: cudppDestroyPlan_def resolve_live [OF assms(1)])
next
  case (CUDPPRadixSortPlan p k)
  then have tag: "algorithm (m_config obj) = CUDPP_SORT_RADIX"
    and "points_to s p CUDPPScanPlan"
    using assms(2) by (simp_all add: class_matches_tag_def)
  then obtain b nobj where n: "p = Some b" "plans s b = Some nobj" "derived nobj = CUDPPScanPlan"
    using points_toD by blast
  have ne: "b \<noteq> a" using n assms(1) CUDPPRadixSortPlan by auto
  have d: "derived obj = CUDPPRadixSortPlan (Some b) k" using CUDPPRadixSortPlan n(1) by simp
  have "cudppDestroyPlan (Handle a) s =
          Inr (CUDPP_SUCCESS,
               s\<lparr>plans := (plans s)(b := None, a := None),
                 trace := trace s @
                   [FreeStorage CUDPP_SCAN b, Delete b, FreeStorage CUDPP_SORT_RADIX a] @ [Delete a]\<rparr>)"
    using tag delete_CUDPPRadixSortPlan_result [OF assms(1) d n(2,3)]
    by (simp add: cudppDestroyPlan_def resolve_live [OF assms(1)])
  then show ?thesis
    using tag ne
    by (intro conjI impI exI [of _ "s\<lparr>plans := (plans s)(b := None, a := None),
                 trace := trace s @
                   [FreeStorage CUDPP_SCAN b, Delete b, FreeStorage CUDPP_SORT_RADIX a] @ [Delete a]\<rparr>"]
          exI [of _ "[FreeStorage CUDPP_SCAN b, Delete b, FreeStorage CUDPP_SORT_RADIX a]"])
       auto
next
  case (CUDPPSparseMatrixVectorMultiplyPlan p tbl nr nnz)
  then have tag: "algorithm (m_config obj) = CUDPP_SPMVMULT"
    and "points_to s p CUDPPSegmentedScanPlan"
    using assms(2) by (simp_all add: class_matches_tag_def)
  then obtain b nobj where n: "p = Some b" "plans s b = Some nobj"
      "derived nobj = CUDPPSegmentedScanPlan"
    using points_toD by blast
  have ne: "b \<noteq> a" using n assms(1) CUDPPSparseMatrixVectorMultiplyPlan by auto
  have d: "derived obj = CUDPPSparseMatrixVectorMultiplyPlan (Some b) tbl nr nnz"
    using CUDPPSparseMatrixVectorMultiplyPlan n(1) by simp
  have refused: "cudppDestroyPlan (Handle a) s = Inr (CUDPP_ERROR_ILLEGAL_CONFIGURATION, s)"
    using tag by (simp add: cudppDestroyPlan_def resolve_live [OF assms(1)])
  have released: "cudppDestroySparseMatrix (Handle a) s =
          Inr (CUDPP_SUCCESS,
               s\<lparr>plans := (plans s)(b := None, a := None),
                 trace := trace s @
                   [FreeStorage CUDPP_SPMVMULT a, FreeStorage CUDPP_SEGMENTED_SCAN b, Delete b,
                    DeleteArray a] @ [Delete a]\<rparr>)"
    using delete_CUDPPSparseMatrixVectorMultiplyPlan_result [OF assms(1) d n(2,3)]
    by (simp add: cudppDestroySparseMatrix_def resolve_live [OF assms(1)])
  show ?thesis
    using tag ne refused released
    by (intro conjI impI
          exI [of _ "s\<lparr>plans := (plans s)(b := None, a := None),
                 trace := trace s @
                   [FreeStorage CUDPP_SPMVMULT a, FreeStorage CUDPP_SEGMENTED_SCAN b, Delete b,
                    DeleteArray a] @ [Delete a]\<rparr>"]
          exI [of _ "[FreeStorage CUDPP_SPMVMULT a, FreeStorage CUDPP_SEGMENTED_SCAN b,
                      Delete b, DeleteArray a]"])
       auto
next
  case (CUDPPRandPlan seed)
  then have tag: "algorithm (m_config obj) = CUDPP_RAND_MD5"
    using assms(2) by (simp add: class_matches_tag_def)
  show ?thesis
    using tag delete_CUDPPRandPlan_result [OF assms(1) CUDPPRandPlan]
    by (simp add: cudppDestroyPlan_def resolve_live [OF assms(1)])
qed

theorem destroyPlan_dispatch_on_recorded_tag_witness:
  "(\<exists>s'. cudppDestroyPlan (Handle 0) compact_created = Inr (CUDPP_SUCCESS, s')
        \<and> plans s' 0 = None
        \<and> trace s' = trace compact_created @
             [FreeStorage CUDPP_SCAN 1, Delete 1, FreeStorage CUDPP_COMPACT 0, Delete 0])
 \<and> (\<exists>s'. cudppDestroyPlan (Handle 0) scan_created = Inr (CUDPP_SUCCESS, s')
        \<and> plans s' 0 = None
        \<and> trace s' = trace scan_created @ [FreeStorage CUDPP_SCAN 0, Delete 0])
 \<and> cudppDestroyPlan (Handle 0) spmv_created
       = Inr (CUDPP_ERROR_ILLEGAL_CONFIGURATION, spmv_created)
 \<and> (\<exists>s'. cudppDestroySparseMatrix (Handle 0) spmv_created = Inr (CUDPP_SUCCESS, s')
        \<and> plans s' 0 = None
        \<and> trace s' = trace spmv_created @
             [FreeStorage CUDPP_SPMVMULT 0, FreeStorage CUDPP_SEGMENTED_SCAN 1, Delete 1,
              DeleteArray 0, Delete 0])"
proof -
  have c: "plans compact_created 0 = Some (the (plans compact_created 0))"
    and cw: "class_matches_tag compact_created (the (plans compact_created 0))"
    and ct: "algorithm (m_config (the (plans compact_created 0))) = CUDPP_COMPACT"
    by (simp_all add: compact_created_def class_matches_tag_def points_to_def)
  have n: "plans scan_created 0 = Some (the (plans scan_created 0))"
    and nw: "class_matches_tag scan_created (the (plans scan_created 0))"
    and nt: "algorithm (m_config (the (plans scan_created 0))) = CUDPP_SCAN"
    by (simp_all add: scan_created_def class_matches_tag_def)
  have m: "plans spmv_created 0 = Some (the (plans spmv_created 0))"
    and mw: "class_matches_tag spmv_created (the (plans spmv_created 0))"
    and mt: "algorithm (m_config (the (plans spmv_created 0))) = CUDPP_SPMVMULT"
    by (simp_all add: spmv_created_def class_matches_tag_def points_to_def)
  from destroyPlan_dispatch_on_recorded_tag [OF c cw] ct
  obtain s1 evs1 where 1:
    "cudppDestroyPlan (Handle 0) compact_created = Inr (CUDPP_SUCCESS, s1)"
    "plans s1 0 = None" by auto
  from destroyPlan_dispatch_on_recorded_tag [OF n nw] nt
  obtain s2 evs2 where 2:
    "cudppDestroyPlan (Handle 0) scan_created = Inr (CUDPP_SUCCESS, s2)"
    "plans s2 0 = None" by auto
  from destroyPlan_dispatch_on_recorded_tag [OF m mw] mt
  obtain s3 evs3 where 3:
    "cudppDestroyPlan (Handle 0) spmv_created
       = Inr (CUDPP_ERROR_ILLEGAL_CONFIGURATION, spmv_created)"
    "cudppDestroySparseMatrix (Handle 0) spmv_created = Inr (CUDPP_SUCCESS, s3)"
    "plans s3 0 = None" by auto
  have t3: "trace s3 = trace spmv_created @
             [FreeStorage CUDPP_SPMVMULT 0, FreeStorage CUDPP_SEGMENTED_SCAN 1, Delete 1,
              DeleteArray 0, Delete 0]"
    using 3(2)
    by (auto simp: cudppDestroySparseMatrix_def getPlanPtrFromHandle_def spmv_created_def
        delete_CUDPPSparseMatrixVectorMultiplyPlan_def delete_CUDPPSegmentedScanPlan_def
        operator_delete_def freeStorage_def)
  have t1: "trace s1 = trace compact_created @
             [FreeStorage CUDPP_SCAN 1, Delete 1, FreeStorage CUDPP_COMPACT 0, Delete 0]"
    using 1(1)
    by (auto simp: cudppDestroyPlan_def getPlanPtrFromHandle_def deref_def compact_created_def
        delete_CUDPPCompactPlan_def delete_CUDPPScanPlan_def operator_delete_def
        freeStorage_def)
  have t2: "trace s2 = trace scan_created @ [FreeStorage CUDPP_SCAN 0, Delete 0]"
    using 2(1)
    by (auto simp: cudppDestroyPlan_def getPlanPtrFromHandle_def deref_def scan_created_def
        delete_CUDPPScanPlan_def operator_delete_def freeStorage_def)
  show ?thesis using 1 2 3 t1 t2 t3 by blast
qed

text \<open>
  A sparse-matrix plan created by \<open>cudppSparseMatrix\<close> is registered with the tag of the
  sparse matrix-vector multiply; \<open>cudppDestroyPlan\<close> on its handle runs no cleanup and
  removes nothing.
\<close>

theorem destroyPlan_spmv_counterexample:
  "cudppSparseMatrix example_macros (Handle 0) CUDPP_INVALID_HANDLE
     \<lparr>algorithm = CUDPP_SPMVMULT, op = CUDPP_ADD, datatype_t = CUDPP_FLOAT, options = 0\<rparr>
     12 3 [] [0, 4, 9] [] init_state = Inr (CUDPP_SUCCESS, Handle 0, spmv_created)
 \<and> cudppDestroyPlan (Handle 0) spmv_created
       = Inr (CUDPP_ERROR_ILLEGAL_CONFIGURATION, spmv_created)
 \<and> trace spmv_created = [New 0, New 1, AllocStorage CUDPP_SEGMENTED_SCAN 1, NewArray 0,
                          AllocStorage CUDPP_SPMVMULT 0]"
  using spmv_created_reached
  by (simp add: cudppDestroyPlan_def getPlanPtrFromHandle_def deref_def spmv_created_def)

end
